theory Spec2Isabelle
  imports Complex_Main
begin

section \<open>JavaScript values\<close>

text \<open>
  Exceptions are values. A property access on a reference that is \<open>null\<close> raises a
  \<open>TypeError\<close> in JavaScript; \<open>deref\<close> makes that access explicit, so that a guard the
  source writes before an access is what keeps the model from reaching \<open>Inl\<close>.
\<close>

datatype js_error = TypeError string | Error string | DOMException string

definition deref :: "'a option \<Rightarrow> js_error + 'a" where
  "deref r = (case r of None \<Rightarrow> Inl (TypeError ''Cannot read properties of null'') | Some v \<Rightarrow> Inr v)"

definition try_bind :: "js_error + 'a \<Rightarrow> ('a \<Rightarrow> js_error + 'b) \<Rightarrow> js_error + 'b" where
  "try_bind m f = (case m of Inl e \<Rightarrow> Inl e | Inr v \<Rightarrow> f v)"

text \<open>
  JavaScript numbers are modelled as exact rationals. \<open>Math.round\<close> rounds to the nearest
  integer, a half towards plus infinity; \<open>Math.floor\<close> is \<open>floor\<close>.
\<close>

definition Math_round :: "rat \<Rightarrow> int" where
  "Math_round q = \<lfloor>q + 1 / 2\<rfloor>"

text \<open>
  \<open>ToString\<close> of an integer-valued number, as a template literal prints it: below
  \<open>10^21\<close> its decimal digits; from \<open>10^21\<close> on the exponent notation, the first digit,
  the further digits up to the last non-zero one after a point, and \<open>e+\<close> with the
  exponent; a minus sign first when it is negative. The digits are those of the exact
  integer.
\<close>

definition digit_char :: "nat \<Rightarrow> char" where
  "digit_char d = ''0123456789'' ! (d mod 10)"

fun decimal :: "nat \<Rightarrow> string" where
  "decimal n = (if 10 \<le> n then decimal (n div 10) @ [digit_char n] else [digit_char n])"

definition exponential :: "nat \<Rightarrow> string" where
  "exponential n =
     (let ds = decimal n;
          ms = rev (dropWhile (\<lambda>c. c = CHR ''0'') (rev (tl ds)))
      in hd ds # (if ms = [] then [] else CHR ''.'' # ms) @ ''e+'' @ decimal (length ds - 1))"

definition magnitude :: "nat \<Rightarrow> string" where
  "magnitude n = (if n < 10 ^ 21 then decimal n else exponential n)"

definition ToString :: "int \<Rightarrow> string" where
  "ToString i = (if 0 \<le> i then magnitude (nat i) else CHR ''-'' # magnitude (nat (- i)))"

section \<open>Media objects of the browser\<close>

text \<open>
  A \<open>MediaStream\<close> is known by its identity; \<open>ms_pc\<close> names the peer connection whose
  receiver delivered it. A video element shows the frame \<open>currentFrame\<close>; its intrinsic
  size is zero until a frame has been decoded.
\<close>

record media_stream =
  ms_id :: nat
  ms_pc :: nat

record video_element =
  videoWidth :: nat
  videoHeight :: nat
  currentFrame :: nat
  srcObject :: "media_stream option"

record draw_op =
  di_frame :: nat
  di_x :: nat
  di_y :: nat
  di_w :: nat
  di_h :: nat

record canvas =
  cv_width :: nat
  cv_height :: nat
  cv_bitmap :: "draw_op option"
  cv_context2d :: bool

text \<open>Assigning \<open>canvas.width\<close> or \<open>canvas.height\<close> resizes the bitmap and clears it.\<close>

definition set_width :: "canvas \<Rightarrow> nat \<Rightarrow> canvas" where
  "set_width c w = c\<lparr>cv_width := w, cv_bitmap := None\<rparr>"

definition set_height :: "canvas \<Rightarrow> nat \<Rightarrow> canvas" where
  "set_height c h = c\<lparr>cv_height := h, cv_bitmap := None\<rparr>"

text \<open>\<open>canvas.getContext('2d')\<close>: the drawing context of the canvas, or \<open>null\<close>.\<close>

definition getContext2d :: "canvas \<Rightarrow> canvas option" where
  "getContext2d c = (if cv_context2d c then Some c else None)"

definition drawImage :: "canvas \<Rightarrow> video_element \<Rightarrow> nat \<Rightarrow> nat \<Rightarrow> nat \<Rightarrow> nat \<Rightarrow> canvas" where
  "drawImage ctx video x y w h =
     ctx\<lparr>cv_bitmap := Some \<lparr>di_frame = currentFrame video, di_x = x, di_y = y, di_w = w, di_h = h\<rparr>\<rparr>"

text \<open>
  What the page's environment supplies to a capture: the element that
  \<open>document.createElement('canvas')\<close> returns, and the encoder behind \<open>toDataURL\<close>,
  which turns a quality and a bitmap into the payload of a data URL.
\<close>

record capture_env =
  createElement_canvas :: canvas
  encode_payload :: "rat \<Rightarrow> canvas \<Rightarrow> string"

definition toDataURL :: "capture_env \<Rightarrow> canvas \<Rightarrow> string \<Rightarrow> rat \<Rightarrow> string" where
  "toDataURL env c mime quality = ''data:'' @ mime @ '';base64,'' @ encode_payload env quality c"

section \<open>The frame capturer\<close>

text \<open>
  \<open>captureFrame\<close> of \<open>LiveStream\<close> and of \<open>CameraFeed\<close> have the same body; it reads
  \<open>videoRef.current\<close> and reads and writes \<open>canvasRef.current\<close>. The result is the
  returned value (\<open>None\<close> for \<open>null\<close>) and the new \<open>canvasRef.current\<close>.
\<close>

definition captureFrame ::
  "capture_env \<Rightarrow> video_element option \<Rightarrow> canvas option \<Rightarrow> js_error + (string option \<times> canvas option)" where
  "captureFrame env vref cref =
     try_bind
       (if vref = None then Inr True
        else try_bind (deref vref) (\<lambda>v. Inr (videoWidth v = 0)))
       (\<lambda>not_ready.
          if not_ready then Inr (None, cref)
          else
            let cref1 = (if cref = None then Some (createElement_canvas env) else cref)
            in try_bind (deref vref) (\<lambda>video.
               try_bind (deref cref1) (\<lambda>canvas.
                 let canvas1 = set_width canvas (videoWidth video);
                     canvas2 = set_height canvas1 (videoHeight video)
                 in case getContext2d canvas2 of
                      None \<Rightarrow> Inr (None, Some canvas2)
                    | Some ctx \<Rightarrow>
                        let canvas3 = drawImage ctx video 0 0 (cv_width canvas2) (cv_height canvas2)
                        in Inr (Some (toDataURL env canvas3 ''image/jpeg'' (95 / 100)), Some canvas3))))"

datatype connection_status = StatusConnecting | StatusConnected | StatusError

text \<open>The state and refs of one \<open>LiveStream\<close> component instance.\<close>

record live_stream =
  zoomLevel :: nat
  connectionStatus :: connection_status
  errorMessage :: "string option"
  videoRef :: "video_element option"
  pcRef :: "nat option"
  streamRef :: "media_stream option"
  canvasRef :: "canvas option"

definition LiveStream_captureFrame ::
  "capture_env \<Rightarrow> live_stream \<Rightarrow> js_error + (string option \<times> live_stream)" where
  "LiveStream_captureFrame env s =
     try_bind (captureFrame env (videoRef s) (canvasRef s))
       (\<lambda>(r, c). Inr (r, s\<lparr>canvasRef := c\<rparr>))"

definition LiveStream_getStream :: "live_stream \<Rightarrow> media_stream option" where
  "LiveStream_getStream s = streamRef s"

text \<open>The state and refs of one \<open>CameraFeed\<close> component instance.\<close>

record camera_feed =
  cf_zoomLevel :: nat
  cf_cameraError :: "string option"
  cf_videoRef :: "video_element option"
  cf_streamRef :: "media_stream option"
  cf_canvasRef :: "canvas option"

definition CameraFeed_captureFrame ::
  "capture_env \<Rightarrow> camera_feed \<Rightarrow> js_error + (string option \<times> camera_feed)" where
  "CameraFeed_captureFrame env s =
     try_bind (captureFrame env (cf_videoRef s) (cf_canvasRef s))
       (\<lambda>(r, c). Inr (r, s\<lparr>cf_canvasRef := c\<rparr>))"

text \<open>
  The canvas a capture works on: \<open>canvasRef.current\<close>, or the element created on the
  first call; and the bitmap a capture leaves on it.
\<close>

definition capture_canvas :: "capture_env \<Rightarrow> canvas option \<Rightarrow> canvas" where
  "capture_canvas env cref = (case cref of None \<Rightarrow> createElement_canvas env | Some c \<Rightarrow> c)"

definition captured_bitmap :: "canvas \<Rightarrow> video_element \<Rightarrow> canvas" where
  "captured_bitmap c v =
     c\<lparr>cv_width := videoWidth v, cv_height := videoHeight v,
       cv_bitmap := Some \<lparr>di_frame = currentFrame v, di_x = 0, di_y = 0,
                          di_w = videoWidth v, di_h = videoHeight v\<rparr>\<rparr>"

section \<open>The overlay renderer\<close>

text \<open>
  A detection as the host supplies it. The fields are the source's \<open>id\<close>, \<open>type\<close>,
  \<open>confidence\<close>, \<open>x\<close>, \<open>y\<close>, \<open>width\<close> and \<open>height\<close>, prefixed because \<open>id\<close> is a
  constant of HOL and the others are wanted as variables.
\<close>

record RiskDetection =
  rd_id :: string
  rd_type :: string
  rd_confidence :: rat
  rd_x :: rat
  rd_y :: rat
  rd_width :: rat
  rd_height :: rat

text \<open>
  One rendered \<open>motion.div\<close>: its CSS box in percent of the viewport, the scale it is
  animated to, the point of the box the scale is taken about, and the text of its badge.
  A box with no \<open>transformOrigin\<close> scales about its centre.
\<close>

datatype transform_origin = OriginCenter | OriginTopLeft

record overlay_box =
  box_key :: string
  box_left :: rat
  box_top :: rat
  box_width :: rat
  box_height :: rat
  box_scale :: rat
  box_origin :: transform_origin
  box_label :: string

definition risk_label :: "RiskDetection \<Rightarrow> string" where
  "risk_label risk = rd_type risk @ '' ('' @ ToString (Math_round (rd_confidence risk)) @ ''%)''"

definition LiveStream_overlays :: "live_stream \<Rightarrow> RiskDetection list \<Rightarrow> overlay_box list" where
  "LiveStream_overlays s risks =
     (if connectionStatus s = StatusConnected then
        map (\<lambda>risk. \<lparr>box_key = rd_id risk, box_left = rd_x risk, box_top = rd_y risk,
                     box_width = rd_width risk, box_height = rd_height risk,
                     box_scale = 1, box_origin = OriginCenter, box_label = risk_label risk\<rparr>) risks
      else [])"

definition CameraFeed_overlays :: "camera_feed \<Rightarrow> RiskDetection list \<Rightarrow> overlay_box list" where
  "CameraFeed_overlays s risks =
     map (\<lambda>risk. \<lparr>box_key = rd_id risk, box_left = rd_x risk, box_top = rd_y risk,
                  box_width = rd_width risk, box_height = rd_height risk,
                  box_scale = 1, box_origin = OriginCenter, box_label = risk_label risk\<rparr>) risks"

definition MediaViewer_overlays :: "nat \<Rightarrow> RiskDetection list \<Rightarrow> overlay_box list" where
  "MediaViewer_overlays zoom risks =
     map (\<lambda>risk. \<lparr>box_key = rd_id risk, box_left = rd_x risk, box_top = rd_y risk,
                  box_width = rd_width risk, box_height = rd_height risk,
                  box_scale = of_nat zoom, box_origin = OriginTopLeft, box_label = risk_label risk\<rparr>) risks"

text \<open>
  The scale the container of the video or image is animated to, in the three
  components: \<open>animate={{ scale: zoomLevel }}\<close>, and \<open>animate={{ scale: zoom }}\<close> in
  \<open>MediaViewer\<close>.
\<close>

definition LiveStream_video_scale :: "live_stream \<Rightarrow> rat" where
  "LiveStream_video_scale s = of_nat (zoomLevel s)"

definition CameraFeed_video_scale :: "camera_feed \<Rightarrow> rat" where
  "CameraFeed_video_scale s = of_nat (cf_zoomLevel s)"

definition MediaViewer_video_scale :: "nat \<Rightarrow> rat" where
  "MediaViewer_video_scale zoom = of_nat zoom"

text \<open>
  The pixels a box covers in a viewport \<open>W\<close> wide and \<open>H\<close> high: the percentages are
  taken of the viewport, then the box is scaled about its own origin point.
\<close>

record rect =
  r_left :: rat
  r_top :: rat
  r_width :: rat
  r_height :: rat

definition project :: "rat \<Rightarrow> rat \<Rightarrow> overlay_box \<Rightarrow> rect" where
  "project W H b =
     (let l = box_left b / 100 * W; t = box_top b / 100 * H;
          w = box_width b / 100 * W; h = box_height b / 100 * H;
          ox = (case box_origin b of OriginTopLeft \<Rightarrow> 0 | OriginCenter \<Rightarrow> w / 2);
          oy = (case box_origin b of OriginTopLeft \<Rightarrow> 0 | OriginCenter \<Rightarrow> h / 2)
      in \<lparr>r_left = l + ox - box_scale b * ox, r_top = t + oy - box_scale b * oy,
          r_width = box_scale b * w, r_height = box_scale b * h\<rparr>)"

text \<open>The rectangle of a detection in the viewport, with no scaling.\<close>

definition unscaled_rect :: "rat \<Rightarrow> rat \<Rightarrow> RiskDetection \<Rightarrow> rect" where
  "unscaled_rect W H risk =
     \<lparr>r_left = rd_x risk / 100 * W, r_top = rd_y risk / 100 * H,
      r_width = rd_width risk / 100 * W, r_height = rd_height risk / 100 * H\<rparr>"

text \<open>
  The specification's rectangle, from its words: position \<open>(x%, y%)\<close> and size
  \<open>(width%, height%)\<close> of the viewport, scaled about the viewport's origin by the zoom
  factor.
\<close>

definition spec_overlay_rect :: "rat \<Rightarrow> rat \<Rightarrow> rat \<Rightarrow> RiskDetection \<Rightarrow> rect" where
  "spec_overlay_rect W H zoom risk =
     \<lparr>r_left = zoom * (rd_x risk / 100 * W), r_top = zoom * (rd_y risk / 100 * H),
      r_width = zoom * (rd_width risk / 100 * W), r_height = zoom * (rd_height risk / 100 * H)\<rparr>"

section \<open>The recording pipeline of the host\<close>

text \<open>
  A \<open>Blob\<close> is its bytes and its type; \<open>new Blob(parts, {type})\<close> concatenates the parts.
  An object URL made by \<open>URL.createObjectURL\<close> is modelled by the blob it resolves to.
\<close>

record blob =
  blob_data :: "nat list"
  blob_type :: string

definition blob_size :: "blob \<Rightarrow> nat" where
  "blob_size b = length (blob_data b)"

definition new_Blob :: "blob list \<Rightarrow> string \<Rightarrow> blob" where
  "new_Blob parts ty = \<lparr>blob_data = concat (map blob_data parts), blob_type = ty\<rparr>"

text \<open>
  A \<open>MediaRecorder\<close>. Its \<open>onstop\<close> handler is a closure created inside
  \<open>handleToggleRecording\<close>; \<open>mr_onstop_detectedRisks\<close> is the \<open>detectedRisks\<close> that
  closure holds, the constant of the render whose handler started the recording.
\<close>

datatype recorder_state = Inactive | Recording | Paused

record media_recorder =
  mr_stream :: media_stream
  mr_mimeType :: string
  mr_state :: recorder_state
  mr_timeslice :: "nat option"
  mr_onstop_detectedRisks :: "RiskDetection list"

record RecordedVideo =
  rv_id :: string
  rv_timestamp :: int
  thumbnailUrl :: string
  videoUrl :: blob
  duration :: int
  risks :: "RiskDetection list"
  filename :: string

datatype toast = ToastError string string | ToastSuccess string string

text \<open>
  The state of \<open>App\<close> that recording touches. \<open>mediaRecorderRef\<close> holds the position of
  the recorder in \<open>recorders\<close>, the recorder objects constructed so far.
\<close>

record app =
  isRecording :: bool
  detectedRisks :: "RiskDetection list"
  recordedVideos :: "RecordedVideo list"
  mediaRecorderRef :: "nat option"
  recordedChunksRef :: "blob list"
  recordingStartTimeRef :: int
  recorders :: "media_recorder list"
  toasts :: "toast list"

text \<open>
  What one click meets: \<open>Date.now()\<close>, the value of
  \<open>liveStreamRef.current?.getStream()\<close>, and whether the \<open>MediaRecorder\<close> constructor
  or its \<open>start\<close> throws.
\<close>

record toggle_env =
  te_now :: int
  te_stream :: "media_stream option"
  te_construct_throws :: "js_error option"
  te_start_throws :: "js_error option"

definition recording_failed :: "app \<Rightarrow> app" where
  "recording_failed a =
     a\<lparr>toasts := toasts a @ [ToastError ''Recording failed''
                               ''Unable to start video recording (Browser permission issue?)''],
       isRecording := False\<rparr>"

definition handleToggleRecording :: "bool \<Rightarrow> RiskDetection list \<Rightarrow> toggle_env \<Rightarrow> app \<Rightarrow> app" where
  "handleToggleRecording r_isRecording r_detectedRisks env a0 =
     (let wasRecording = r_isRecording;
          a = a0\<lparr>isRecording := \<not> r_isRecording\<rparr>
      in if wasRecording then
           (case mediaRecorderRef a of
              None \<Rightarrow> a
            | Some m \<Rightarrow>
                if m < length (recorders a) \<and> mr_state (recorders a ! m) \<noteq> Inactive
                then a\<lparr>recorders := (recorders a)[m := (recorders a ! m)\<lparr>mr_state := Inactive\<rparr>]\<rparr>
                else a)
         else
           (case te_stream env of
              None \<Rightarrow>
                a\<lparr>toasts := toasts a @ [ToastError ''Stream not ready''
                                          ''Waiting for connection to Raspberry Pi...''],
                  isRecording := False\<rparr>
            | Some stream \<Rightarrow>
                let a1 = a\<lparr>recordedChunksRef := [], recordingStartTimeRef := te_now env\<rparr>
                in (case te_construct_throws env of
                      Some e \<Rightarrow> recording_failed a1
                    | None \<Rightarrow>
                        let mediaRecorder =
                              \<lparr>mr_stream = stream, mr_mimeType = ''video/webm;codecs=vp9'',
                               mr_state = Inactive, mr_timeslice = None,
                               mr_onstop_detectedRisks = r_detectedRisks\<rparr>;
                            m = length (recorders a1);
                            a2 = a1\<lparr>recorders := recorders a1 @ [mediaRecorder],
                                    mediaRecorderRef := Some m\<rparr>
                        in (case te_start_throws env of
                              Some e \<Rightarrow> recording_failed a2
                            | None \<Rightarrow>
                                a2\<lparr>recorders := (recorders a2)
                                       [m := mediaRecorder\<lparr>mr_state := Recording, mr_timeslice := Some 1000\<rparr>],
                                   toasts := toasts a2 @ [ToastSuccess ''Recording started''
                                                            ''Video recording has begun'']\<rparr>))))"

definition ondataavailable :: "blob \<Rightarrow> app \<Rightarrow> app" where
  "ondataavailable data a =
     (if blob_size data > 0 then a\<lparr>recordedChunksRef := recordedChunksRef a @ [data]\<rparr> else a)"

text \<open>
  What the \<open>stop\<close> event meets: \<open>Date.now()\<close>, the value of
  \<open>liveStreamRef.current?.captureFrame()\<close>, and \<open>new Date().toISOString()\<close>.
\<close>

record stop_env =
  se_now :: int
  se_captureFrame :: "string option"
  se_toISOString :: string

definition onstop :: "RiskDetection list \<Rightarrow> stop_env \<Rightarrow> app \<Rightarrow> app" where
  "onstop c_detectedRisks env a =
     (let blob = new_Blob (recordedChunksRef a) ''video/webm'';
          videoUrl' = blob;
          duration' = (se_now env - recordingStartTimeRef a) div 1000;
          thumbnailUrl' = (case se_captureFrame env of None \<Rightarrow> [] | Some u \<Rightarrow> u);
          newVideo =
            \<lparr>rv_id = ''video-'' @ ToString (se_now env), rv_timestamp = se_now env,
             thumbnailUrl = thumbnailUrl', videoUrl = videoUrl', duration = duration',
             risks = c_detectedRisks,
             filename = ''CAM-01_'' @ map (\<lambda>c. if c = CHR '':'' then CHR ''-'' else c)
                                       (take 19 (se_toISOString env)) @ ''.webm''\<rparr>
      in a\<lparr>recordedVideos := newVideo # take 4 (recordedVideos a),
           toasts := toasts a @ [ToastSuccess ''Recording stopped''
                                   (''Video saved with '' @ decimal (length c_detectedRisks)
                                    @ '' risk events recorded'')]\<rparr>)"

text \<open>
  The events of the host: a click on the record button runs the handler of the latest
  render, which holds that render's \<open>isRecording\<close> and \<open>detectedRisks\<close>; the recorder
  delivers \<open>dataavailable\<close> and \<open>stop\<close>; the detection timer replaces \<open>detectedRisks\<close>.
\<close>

datatype app_event =
    ClickToggle toggle_env
  | DataAvailable nat blob
  | Stop nat stop_env
  | SetDetectedRisks "RiskDetection list"

fun app_step :: "app \<Rightarrow> app_event \<Rightarrow> app" where
  "app_step a (ClickToggle env) = handleToggleRecording (isRecording a) (detectedRisks a) env a"
| "app_step a (DataAvailable m data) = (if m < length (recorders a) then ondataavailable data a else a)"
| "app_step a (Stop m env) =
     (if m < length (recorders a) then onstop (mr_onstop_detectedRisks (recorders a ! m)) env a else a)"
| "app_step a (SetDetectedRisks rs) = a\<lparr>detectedRisks := rs\<rparr>"

definition app_run :: "app \<Rightarrow> app_event list \<Rightarrow> app" where
  "app_run a evs = foldl app_step a evs"

section \<open>The session negotiator\<close>

text \<open>
  Peer connections are objects of the browser: \<open>peerConnections\<close> lists every
  \<open>RTCPeerConnection\<close> constructed so far, and a reference to one is its position.
  \<open>pc_ontrack\<close> is the handler assigned to \<open>pc.ontrack\<close>, a closure of the effect instance
  it names. \<open>pc_applying\<close> is the description a call of \<open>setRemoteDescription\<close> that has
  not settled yet is applying.
\<close>

datatype sdp_type = SdpOffer | SdpAnswer

record session_description =
  sd_type :: sdp_type
  sdp :: string

record peer_connection =
  pc_closed :: bool
  pc_iceServers :: "string list"
  pc_transceivers :: "(string \<times> string) list"
  pc_localDescription :: "session_description option"
  pc_remoteDescription :: "session_description option"
  pc_applying :: "session_description option"
  pc_ontrack :: "nat option"

record http_request =
  req_url :: string
  req_method :: string
  req_body :: string
  req_headers :: "(string \<times> string) list"

record http_response =
  resp_status :: nat
  resp_statusText :: string

text \<open>\<open>response.ok\<close> of the Fetch API: the status is in the range 200 to 299.\<close>

definition response_ok :: "http_response \<Rightarrow> bool" where
  "response_ok r = (200 \<le> resp_status r \<and> resp_status r \<le> 299)"

text \<open>
  One run of the \<open>useEffect\<close> callback: its \<open>streamUrl\<close>, its \<open>isMounted\<close>, the constants
  \<open>pc\<close> and \<open>offer\<close> of its \<open>startStream\<close>, the description built for the answer, and the
  \<open>await\<close> at which \<open>startStream\<close> is suspended.
\<close>

datatype await_point =
    AwaitCreateOffer | AwaitSetLocalDescription | AwaitFetch | AwaitText
  | AwaitSetRemoteDescription | Settled

record effect_instance =
  ef_streamUrl :: string
  ef_isMounted :: bool
  ef_pc :: "nat option"
  ef_offer :: "session_description option"
  ef_answer :: "session_description option"
  ef_await :: await_point

record page =
  component :: live_stream
  detached :: "video_element list"
  current_effect :: "nat option"
  effects :: "effect_instance list"
  peerConnections :: "peer_connection list"
  fetches :: "http_request list"
  console_errors :: "js_error list"

definition new_RTCPeerConnection :: "string list \<Rightarrow> page \<Rightarrow> nat \<times> page" where
  "new_RTCPeerConnection ice pg =
     (length (peerConnections pg),
      pg\<lparr>peerConnections := peerConnections pg @
            [\<lparr>pc_closed = False, pc_iceServers = ice, pc_transceivers = [],
              pc_localDescription = None, pc_remoteDescription = None, pc_applying = None,
              pc_ontrack = None\<rparr>]\<rparr>)"

definition update_pc :: "nat \<Rightarrow> (peer_connection \<Rightarrow> peer_connection) \<Rightarrow> page \<Rightarrow> page" where
  "update_pc p f pg =
     (if p < length (peerConnections pg)
      then pg\<lparr>peerConnections := (peerConnections pg)[p := f (peerConnections pg ! p)]\<rparr>
      else pg)"

definition update_effect :: "nat \<Rightarrow> (effect_instance \<Rightarrow> effect_instance) \<Rightarrow> page \<Rightarrow> page" where
  "update_effect k f pg =
     (if k < length (effects pg)
      then pg\<lparr>effects := (effects pg)[k := f (effects pg ! k)]\<rparr>
      else pg)"

definition pc_close :: "nat \<Rightarrow> page \<Rightarrow> page" where
  "pc_close p pg = update_pc p (\<lambda>c. c\<lparr>pc_closed := True\<rparr>) pg"

definition open_connections :: "page \<Rightarrow> nat" where
  "open_connections pg = length (filter (\<lambda>c. \<not> pc_closed c) (peerConnections pg))"

text \<open>The \<open>catch\<close> block of \<open>startStream\<close>, run by effect instance \<open>k\<close>.\<close>

definition catch_block :: "nat \<Rightarrow> js_error \<Rightarrow> page \<Rightarrow> page" where
  "catch_block k err pg0 =
     (let pg = pg0\<lparr>console_errors := console_errors pg0 @ [err]\<rparr>;
          pg1 = (if ef_isMounted (effects pg ! k)
                 then pg\<lparr>component := (component pg)
                        \<lparr>connectionStatus := StatusError,
                         errorMessage := Some ''Cannot connect to Camera. Check Raspberry Pi.''\<rparr>\<rparr>
                 else pg)
      in update_effect k (\<lambda>e. e\<lparr>ef_await := Settled\<rparr>) pg1)"

text \<open>
  \<open>startStream\<close> of effect instance \<open>k\<close>, from its call to its first \<open>await\<close>. The
  constructor and \<open>addTransceiver\<close> are taken to return normally.
\<close>

definition startStream :: "nat \<Rightarrow> page \<Rightarrow> page" where
  "startStream k pg =
     (if ef_streamUrl (effects pg ! k) = [] then update_effect k (\<lambda>e. e\<lparr>ef_await := Settled\<rparr>) pg
      else
        let pg1 = pg\<lparr>component := (component pg)
                     \<lparr>connectionStatus := StatusConnecting, errorMessage := None\<rparr>\<rparr>;
            pg2 = (case pcRef (component pg1) of None \<Rightarrow> pg1 | Some p \<Rightarrow> pc_close p pg1);
            (pc, pg3) = new_RTCPeerConnection [''stun:stun.l.google.com:19302''] pg2;
            pg4 = pg3\<lparr>component := (component pg3)\<lparr>pcRef := Some pc\<rparr>\<rparr>;
            pg5 = update_pc pc (\<lambda>c. c\<lparr>pc_ontrack := Some k\<rparr>) pg4;
            pg6 = update_pc pc (\<lambda>c. c\<lparr>pc_transceivers := pc_transceivers c @ [(''video'', ''recvonly'')]\<rparr>) pg5
        in update_effect k (\<lambda>e. e\<lparr>ef_pc := Some pc, ef_await := AwaitCreateOffer\<rparr>) pg6)"

text \<open>
  How an awaited promise settles. \<open>resume\<close> continues \<open>startStream\<close> of effect instance
  \<open>k\<close> from its \<open>await\<close> to the next one. \<open>createSessionDescription\<close> is the method the
  source calls on a second, freshly constructed \<open>RTCPeerConnection\<close>; what it returns or
  throws is the argument \<open>csd\<close>. The argument of \<open>pc.setRemoteDescription\<close> is evaluated
  before the call: the call is made, and the description is being applied, only when
  \<open>createSessionDescription\<close> has returned.
\<close>

datatype settled =
    Rejected js_error
  | ResolvedOffer session_description
  | ResolvedVoid
  | ResolvedResponse http_response
  | ResolvedText string

definition resume ::
  "(session_description \<Rightarrow> js_error + session_description) \<Rightarrow> nat \<Rightarrow> settled \<Rightarrow> page \<Rightarrow> page" where
  "resume csd k r pg =
     (if \<not> k < length (effects pg) then pg
      else
        let e = effects pg ! k in
        case (ef_await e, r) of
          (Settled, _) \<Rightarrow> pg
        | (AwaitSetRemoteDescription, Rejected err) \<Rightarrow>
            catch_block k err
              (case ef_pc e of None \<Rightarrow> pg
               | Some pc \<Rightarrow> update_pc pc (\<lambda>c. c\<lparr>pc_applying := None\<rparr>) pg)
        | (_, Rejected err) \<Rightarrow> catch_block k err pg
        | (AwaitCreateOffer, ResolvedOffer offer) \<Rightarrow>
            update_effect k (\<lambda>e. e\<lparr>ef_offer := Some offer, ef_await := AwaitSetLocalDescription\<rparr>) pg
        | (AwaitSetLocalDescription, ResolvedVoid) \<Rightarrow>
            let pg1 = (case ef_pc e of None \<Rightarrow> pg
                       | Some pc \<Rightarrow> update_pc pc (\<lambda>c. c\<lparr>pc_localDescription := ef_offer e\<rparr>) pg);
                pg2 = pg1\<lparr>fetches := fetches pg1 @
                        [\<lparr>req_url = ef_streamUrl e, req_method = ''POST'',
                          req_body = (case ef_offer e of None \<Rightarrow> [] | Some offer \<Rightarrow> sdp offer),
                          req_headers = [(''Content-Type'', ''application/sdp'')]\<rparr>]\<rparr>
            in update_effect k (\<lambda>e. e\<lparr>ef_await := AwaitFetch\<rparr>) pg2
        | (AwaitFetch, ResolvedResponse response) \<Rightarrow>
            if \<not> response_ok response
            then catch_block k (Error (''Connection failed: '' @ resp_statusText response)) pg
            else update_effect k (\<lambda>e. e\<lparr>ef_await := AwaitText\<rparr>) pg
        | (AwaitText, ResolvedText answerSdp) \<Rightarrow>
            let (tmp, pg1) = new_RTCPeerConnection [] pg
            in (case csd \<lparr>sd_type = SdpAnswer, sdp = answerSdp\<rparr> of
                  Inl err \<Rightarrow> catch_block k err pg1
                | Inr d \<Rightarrow>
                    let pg2 = (case ef_pc e of None \<Rightarrow> pg1
                               | Some pc \<Rightarrow> update_pc pc (\<lambda>c. c\<lparr>pc_applying := Some d\<rparr>) pg1)
                    in update_effect k
                         (\<lambda>e. e\<lparr>ef_answer := Some d, ef_await := AwaitSetRemoteDescription\<rparr>) pg2)
        | (AwaitSetRemoteDescription, ResolvedVoid) \<Rightarrow>
            let pg1 = (case ef_pc e of None \<Rightarrow> pg
                       | Some pc \<Rightarrow>
                           update_pc pc
                             (\<lambda>c. c\<lparr>pc_remoteDescription := ef_answer e, pc_applying := None\<rparr>) pg)
            in update_effect k (\<lambda>e. e\<lparr>ef_await := Settled\<rparr>) pg1
        | _ \<Rightarrow> pg)"

text \<open>
  The handler assigned to \<open>pc.ontrack\<close> by effect instance \<open>k\<close>, and its delivery: a
  peer connection fires \<open>track\<close> only while it is applying a remote description, and
  a closed one fires no event.
\<close>

definition ontrack_handler :: "nat \<Rightarrow> media_stream list \<Rightarrow> page \<Rightarrow> page" where
  "ontrack_handler k streams pg =
     (case (videoRef (component pg), streams) of
        (Some v, s0 # _) \<Rightarrow>
          let c1 = (component pg)\<lparr>videoRef := Some (v\<lparr>srcObject := Some s0\<rparr>), streamRef := Some s0\<rparr>;
              c2 = (if ef_isMounted (effects pg ! k) then c1\<lparr>connectionStatus := StatusConnected\<rparr> else c1)
          in pg\<lparr>component := c2\<rparr>
      | _ \<Rightarrow> pg)"

definition track_event :: "nat \<Rightarrow> media_stream list \<Rightarrow> page \<Rightarrow> page" where
  "track_event p streams pg =
     (if p < length (peerConnections pg) \<and> \<not> pc_closed (peerConnections pg ! p) \<and>
         pc_applying (peerConnections pg ! p) \<noteq> None then
        (case pc_ontrack (peerConnections pg ! p) of
           None \<Rightarrow> pg
         | Some k \<Rightarrow> ontrack_handler k streams pg)
      else pg)"

text \<open>The function the effect returns, for effect instance \<open>k\<close>.\<close>

definition cleanup :: "nat \<Rightarrow> page \<Rightarrow> page" where
  "cleanup k pg =
     (let pg1 = update_effect k (\<lambda>e. e\<lparr>ef_isMounted := False\<rparr>) pg;
          pg2 = (case pcRef (component pg1) of None \<Rightarrow> pg1 | Some p \<Rightarrow> pc_close p pg1)
      in case videoRef (component pg2) of
           None \<Rightarrow> pg2
         | Some v \<Rightarrow> pg2\<lparr>component := (component pg2)\<lparr>videoRef := Some (v\<lparr>srcObject := None\<rparr>)\<rparr>\<rparr>)"

definition run_effect :: "string \<Rightarrow> page \<Rightarrow> page" where
  "run_effect url pg =
     (let k = length (effects pg);
          pg1 = pg\<lparr>effects := effects pg @
                  [\<lparr>ef_streamUrl = url, ef_isMounted = True, ef_pc = None, ef_offer = None,
                    ef_answer = None, ef_await = Settled\<rparr>],
                  current_effect := Some k\<rparr>
      in startStream k pg1)"

definition initial_component :: "video_element \<Rightarrow> live_stream" where
  "initial_component v =
     \<lparr>zoomLevel = 1, connectionStatus = StatusConnecting, errorMessage = None,
      videoRef = Some v, pcRef = None, streamRef = None, canvasRef = None\<rparr>"

definition initial_page :: page where
  "initial_page =
     \<lparr>component = \<lparr>zoomLevel = 1, connectionStatus = StatusConnecting, errorMessage = None,
                    videoRef = None, pcRef = None, streamRef = None, canvasRef = None\<rparr>,
      detached = [], current_effect = None, effects = [], peerConnections = [], fetches = [],
      console_errors = []\<rparr>"

text \<open>
  What happens to a page: React mounts the component with a video element and a
  \<open>streamUrl\<close>, renders it again with another \<open>streamUrl\<close> (the effect depends on
  \<open>[streamUrl]\<close>: its cleanup runs, then the effect) or unmounts it; a promise that
  \<open>startStream\<close> awaits settles; a peer connection delivers a track. At an unmount React
  detaches the video element from \<open>videoRef\<close> before it runs the cleanup of the effect:
  the element goes to \<open>detached\<close> as it is, and the cleanup finds \<open>videoRef.current\<close>
  \<open>null\<close>.
\<close>

datatype page_event =
    Mount video_element string
  | ChangeUrl string
  | Unmount
  | Settle nat settled
  | TrackEvent nat "media_stream list"

fun page_step ::
  "(session_description \<Rightarrow> js_error + session_description) \<Rightarrow> page \<Rightarrow> page_event \<Rightarrow> page" where
  "page_step csd pg (Mount v url) =
     (case current_effect pg of
        Some k \<Rightarrow> pg
      | None \<Rightarrow> run_effect url (pg\<lparr>component := initial_component v\<rparr>))"
| "page_step csd pg (ChangeUrl url) =
     (case current_effect pg of
        None \<Rightarrow> pg
      | Some k \<Rightarrow> if url = ef_streamUrl (effects pg ! k) then pg else run_effect url (cleanup k pg))"
| "page_step csd pg Unmount =
     (case current_effect pg of
        None \<Rightarrow> pg
      | Some k \<Rightarrow>
          (cleanup k
             (pg\<lparr>component := (component pg)\<lparr>videoRef := None\<rparr>,
                 detached := detached pg @
                   (case videoRef (component pg) of None \<Rightarrow> [] | Some v \<Rightarrow> [v])\<rparr>))
            \<lparr>current_effect := None\<rparr>)"
| "page_step csd pg (Settle k r) = resume csd k r pg"
| "page_step csd pg (TrackEvent p streams) = track_event p streams pg"

definition page_run ::
  "(session_description \<Rightarrow> js_error + session_description) \<Rightarrow> page \<Rightarrow> page_event list \<Rightarrow> page" where
  "page_run csd pg evs = foldl (page_step csd) pg evs"



section \<open>Results and sample inputs\<close>

text \<open>The value a call returns, without the state it leaves.\<close>

definition returned :: "js_error + ('a \<times> 'b) \<Rightarrow> js_error + 'a" where
  "returned r = map_sum id fst r"

definition sample_video :: video_element where
  "sample_video = \<lparr>videoWidth = 640, videoHeight = 480, currentFrame = 1, srcObject = None\<rparr>"

definition sample_env :: capture_env where
  "sample_env =
     \<lparr>createElement_canvas = \<lparr>cv_width = 300, cv_height = 150, cv_bitmap = None, cv_context2d = True\<rparr>,
      encode_payload = (\<lambda>q c. ''/9j/4AAQ'')\<rparr>"

definition sample_env_no_context :: capture_env where
  "sample_env_no_context =
     \<lparr>createElement_canvas = \<lparr>cv_width = 300, cv_height = 150, cv_bitmap = None, cv_context2d = False\<rparr>,
      encode_payload = (\<lambda>q c. ''/9j/4AAQ'')\<rparr>"

definition sample_live :: live_stream where
  "sample_live =
     \<lparr>zoomLevel = 2, connectionStatus = StatusConnected, errorMessage = None,
      videoRef = Some sample_video, pcRef = Some 0, streamRef = Some \<lparr>ms_id = 7, ms_pc = 0\<rparr>,
      canvasRef = None\<rparr>"

definition sample_camera :: camera_feed where
  "sample_camera =
     \<lparr>cf_zoomLevel = 2, cf_cameraError = None, cf_videoRef = Some sample_video,
      cf_streamRef = Some \<lparr>ms_id = 7, ms_pc = 0\<rparr>, cf_canvasRef = None\<rparr>"

definition sample_risk :: RiskDetection where
  "sample_risk =
     \<lparr>rd_id = ''risk-0'', rd_type = ''Fire Hazard'', rd_confidence = 173 / 2,
      rd_x = 10, rd_y = 20, rd_width = 20, rd_height = 10\<rparr>"

definition other_risk :: RiskDetection where
  "other_risk =
     \<lparr>rd_id = ''risk-1'', rd_type = ''Slippery Floor'', rd_confidence = 61,
      rd_x = 40, rd_y = 40, rd_width = 15, rd_height = 15\<rparr>"

definition sample_app :: app where
  "sample_app =
     \<lparr>isRecording = False, detectedRisks = [sample_risk], recordedVideos = [],
      mediaRecorderRef = None, recordedChunksRef = [], recordingStartTimeRef = 0,
      recorders = [], toasts = []\<rparr>"

definition no_stream_click :: toggle_env where
  "no_stream_click =
     \<lparr>te_now = 1000, te_stream = None, te_construct_throws = None, te_start_throws = None\<rparr>"

definition start_click :: toggle_env where
  "start_click =
     \<lparr>te_now = 1000, te_stream = Some \<lparr>ms_id = 7, ms_pc = 0\<rparr>, te_construct_throws = None,
      te_start_throws = None\<rparr>"

definition stop_click :: toggle_env where
  "stop_click =
     \<lparr>te_now = 4200, te_stream = Some \<lparr>ms_id = 7, ms_pc = 0\<rparr>, te_construct_throws = None,
      te_start_throws = None\<rparr>"

definition sample_stop :: stop_env where
  "sample_stop =
     \<lparr>se_now = 4200, se_captureFrame = Some ''data:image/jpeg;base64,/9j/4AAQ'',
      se_toISOString = ''2026-01-05T10:20:30.000Z''\<rparr>"

definition chunk :: "nat list \<Rightarrow> blob" where
  "chunk bytes = \<lparr>blob_data = bytes, blob_type = ''video/webm;codecs=vp9''\<rparr>"

definition sample_offer :: session_description where
  "sample_offer = \<lparr>sd_type = SdpOffer, sdp = ''v=0 offer''\<rparr>"

definition created :: http_response where
  "created = \<lparr>resp_status = 201, resp_statusText = ''Created''\<rparr>"

definition unavailable :: http_response where
  "unavailable = \<lparr>resp_status = 503, resp_statusText = ''Service Unavailable''\<rparr>"

text \<open>
  \<open>createSessionDescription\<close> as a WebRTC runtime has it: \<open>RTCPeerConnection\<close> has no
  such method, so the property is \<open>undefined\<close> and the call throws a \<open>TypeError\<close>.
  \<open>csd_returns\<close> is the method the source expects, one that returns the description it
  is given; no runtime provides it.
\<close>

definition csd_throws :: "session_description \<Rightarrow> js_error + session_description" where
  "csd_throws d = Inl (TypeError ''createSessionDescription is not a function'')"

definition csd_returns :: "session_description \<Rightarrow> js_error + session_description" where
  "csd_returns d = Inr d"

definition three_chunks :: "blob list" where
  "three_chunks = [chunk [1], chunk [2, 3], chunk [4]]"

definition whep_url :: string where
  "whep_url = ''http://192.168.1.92:8889/pi-cam-hires/whep''"

definition other_url :: string where
  "other_url = ''http://192.168.1.50:8889/pi-cam/whep''"

text \<open>
  A negotiation that the gateway answers: the component is mounted, the offer is
  created and set, the POST is answered with status 201 and the body is read.
\<close>

definition answered :: "page_event list" where
  "answered =
     [Mount sample_video whep_url, Settle 0 (ResolvedOffer sample_offer), Settle 0 ResolvedVoid,
      Settle 0 (ResolvedResponse created), Settle 0 (ResolvedText ''v=0 answer'')]"

text \<open>
  What would follow if the answer could be built: the connection delivers the track
  of stream 7 while it applies the answer, then \<open>setRemoteDescription\<close> resolves.
\<close>

definition connected :: "page_event list" where
  "connected = answered @ [TrackEvent 0 [\<lparr>ms_id = 7, ms_pc = 0\<rparr>], Settle 0 ResolvedVoid]"

text \<open>The page at the moment the POST of the first negotiation is in flight.\<close>

definition posted :: "page_event list" where
  "posted =
     [Mount sample_video whep_url, Settle 0 (ResolvedOffer sample_offer), Settle 0 ResolvedVoid]"



text \<open>A page after the source's \<open>new RTCPeerConnection()\<close> with no configuration.\<close>

definition with_second_connection :: "page \<Rightarrow> page" where
  "with_second_connection pg = snd (new_RTCPeerConnection [] pg)"

text \<open>
  The pages the sample negotiation passes through: the POST is in flight; \<open>streamUrl\<close>
  has changed while it is in flight; the answer
  description has been built by \<open>createSessionDescription\<close> and is being applied, or
  building it has thrown; the track of the first session has arrived and the answer
  is applied.
\<close>

definition posted_page :: page where
  "posted_page =
     \<lparr>component =
        \<lparr>zoomLevel = 1, connectionStatus = StatusConnecting, errorMessage = None,
         videoRef = Some sample_video, pcRef = Some 0, streamRef = None, canvasRef = None\<rparr>,
      detached = [], current_effect = Some 0,
      effects =
        [\<lparr>ef_streamUrl = whep_url, ef_isMounted = True, ef_pc = Some 0,
          ef_offer = Some sample_offer, ef_answer = None, ef_await = AwaitFetch\<rparr>],
      peerConnections =
        [\<lparr>pc_closed = False, pc_iceServers = [''stun:stun.l.google.com:19302''],
          pc_transceivers = [(''video'', ''recvonly'')],
          pc_localDescription = Some sample_offer, pc_remoteDescription = None,
          pc_applying = None, pc_ontrack = Some 0\<rparr>],
      fetches =
        [\<lparr>req_url = whep_url, req_method = ''POST'', req_body = sdp sample_offer,
          req_headers = [(''Content-Type'', ''application/sdp'')]\<rparr>],
      console_errors = []\<rparr>"


definition unconfigured_connection :: peer_connection where
  "unconfigured_connection =
     \<lparr>pc_closed = False, pc_iceServers = [], pc_transceivers = [], pc_localDescription = None,
      pc_remoteDescription = None, pc_applying = None, pc_ontrack = None\<rparr>"

definition answer_built_page :: "session_description \<Rightarrow> page" where
  "answer_built_page d =
     posted_page
       \<lparr>effects :=
          [\<lparr>ef_streamUrl = whep_url, ef_isMounted = True, ef_pc = Some 0,
            ef_offer = Some sample_offer, ef_answer = Some d,
            ef_await = AwaitSetRemoteDescription\<rparr>],
        peerConnections :=
          map (\<lambda>c. c\<lparr>pc_applying := Some d\<rparr>) (peerConnections posted_page) @
          [unconfigured_connection]\<rparr>"

definition answer_failed_page :: "js_error \<Rightarrow> page" where
  "answer_failed_page err =
     posted_page
       \<lparr>component := (component posted_page)
          \<lparr>connectionStatus := StatusError,
           errorMessage := Some ''Cannot connect to Camera. Check Raspberry Pi.''\<rparr>,
        effects :=
          [\<lparr>ef_streamUrl = whep_url, ef_isMounted = True, ef_pc = Some 0,
            ef_offer = Some sample_offer, ef_answer = None, ef_await = Settled\<rparr>],
        peerConnections := peerConnections posted_page @ [unconfigured_connection],
        console_errors := [err]\<rparr>"

definition sample_answer :: session_description where
  "sample_answer = \<lparr>sd_type = SdpAnswer, sdp = ''v=0 answer''\<rparr>"

definition connected_page :: page where
  "connected_page =
     \<lparr>component =
        \<lparr>zoomLevel = 1, connectionStatus = StatusConnected, errorMessage = None,
         videoRef = Some (sample_video\<lparr>srcObject := Some \<lparr>ms_id = 7, ms_pc = 0\<rparr>\<rparr>),
         pcRef = Some 0, streamRef = Some \<lparr>ms_id = 7, ms_pc = 0\<rparr>, canvasRef = None\<rparr>,
      detached = [], current_effect = Some 0,
      effects =
        [\<lparr>ef_streamUrl = whep_url, ef_isMounted = True, ef_pc = Some 0,
          ef_offer = Some sample_offer, ef_answer = Some sample_answer, ef_await = Settled\<rparr>],
      peerConnections =
        [\<lparr>pc_closed = False, pc_iceServers = [''stun:stun.l.google.com:19302''],
          pc_transceivers = [(''video'', ''recvonly'')],
          pc_localDescription = Some sample_offer, pc_remoteDescription = Some sample_answer,
          pc_applying = None, pc_ontrack = Some 0\<rparr>,
         unconfigured_connection],
      fetches =
        [\<lparr>req_url = whep_url, req_method = ''POST'', req_body = sdp sample_offer,
          req_headers = [(''Content-Type'', ''application/sdp'')]\<rparr>],
      console_errors = []\<rparr>"

section \<open>The invariant of the negotiated connection\<close>

text \<open>
  The connections \<open>startStream\<close> constructs are the ones that are given the \<open>ontrack\<close>
  handler. \<open>negotiated_open\<close> lists the positions of those that are not closed.
  \<open>tracked\<close> is the invariant of the component: a negotiated connection that is open is
  the one \<open>pcRef.current\<close> refers to, and there is none while the component is not
  mounted.
\<close>

definition negotiated_open :: "page \<Rightarrow> nat list" where
  "negotiated_open pg =
     filter (\<lambda>i. pc_ontrack (peerConnections pg ! i) \<noteq> None \<and> \<not> pc_closed (peerConnections pg ! i))
       [0 ..< length (peerConnections pg)]"

definition tracked :: "page \<Rightarrow> bool" where
  "tracked pg =
     (list_all (\<lambda>i. pcRef (component pg) = Some i \<and> current_effect pg \<noteq> None) (negotiated_open pg))"

text \<open>
  \<open>extends pg pg'\<close>: the page \<open>pg'\<close> has the refs of \<open>pg\<close> and its connections, each open or
  closed as it was and with the handler it had, followed by connections that have no
  \<open>ontrack\<close> handler.
\<close>

definition extends :: "page \<Rightarrow> page \<Rightarrow> bool" where
  "extends pg pg' =
     (pcRef (component pg') = pcRef (component pg) \<and> current_effect pg' = current_effect pg \<and>
      length (peerConnections pg) \<le> length (peerConnections pg') \<and>
      (\<forall>i < length (peerConnections pg).
         pc_ontrack (peerConnections pg' ! i) = pc_ontrack (peerConnections pg ! i) \<and>
         pc_closed (peerConnections pg' ! i) = pc_closed (peerConnections pg ! i)) \<and>
      (\<forall>i. length (peerConnections pg) \<le> i \<and> i < length (peerConnections pg')
         \<longrightarrow> pc_ontrack (peerConnections pg' ! i) = None))"

text \<open>
  \<open>unanswered\<close>: no answer has been or is being applied. No connection has a remote
  description or is applying one, no \<open>startStream\<close> is suspended at
  \<open>setRemoteDescription\<close>, no stream has been stored in \<open>streamRef\<close> and the status is
  not \<open>connected\<close>.
\<close>

definition unanswered :: "page \<Rightarrow> bool" where
  "unanswered pg =
     (streamRef (component pg) = None \<and> connectionStatus (component pg) \<noteq> StatusConnected \<and>
      list_all (\<lambda>c. pc_applying c = None \<and> pc_remoteDescription c = None) (peerConnections pg) \<and>
      list_all (\<lambda>e. ef_await e \<noteq> AwaitSetRemoteDescription) (effects pg))"

section \<open>The frame capturer: results\<close>

lemma captureFrame_not_ready:
  "vref = None \<or> (\<exists>v. vref = Some v \<and> videoWidth v = 0) \<Longrightarrow>
   captureFrame env vref cref = Inr (None, cref)"
  by (auto simp: captureFrame_def try_bind_def deref_def)

lemma captureFrame_no_context:
  "vref = Some v \<Longrightarrow> videoWidth v \<noteq> 0 \<Longrightarrow> \<not> cv_context2d (capture_canvas env cref) \<Longrightarrow>
   \<exists>c. captureFrame env vref cref = Inr (None, c)"
  by (auto simp: captureFrame_def try_bind_def deref_def Let_def capture_canvas_def set_width_def
      set_height_def getContext2d_def split: option.splits)

lemma captureFrame_ready:
  "vref = Some v \<Longrightarrow> videoWidth v \<noteq> 0 \<Longrightarrow> cv_context2d (capture_canvas env cref) \<Longrightarrow>
   captureFrame env vref cref =
     Inr (Some (toDataURL env (captured_bitmap (capture_canvas env cref) v) ''image/jpeg'' (95 / 100)),
          Some (captured_bitmap (capture_canvas env cref) v))"
  by (auto simp: captureFrame_def try_bind_def deref_def Let_def capture_canvas_def set_width_def
      set_height_def getContext2d_def drawImage_def captured_bitmap_def split: option.splits)

lemma captureFrame_never_throws: "\<exists>r c. captureFrame env vref cref = Inr (r, c)"
  by (auto simp: captureFrame_def try_bind_def deref_def Let_def split: option.splits)

lemma toDataURL_jpeg:
  "toDataURL env c ''image/jpeg'' q \<noteq> [] \<and>
   take 23 (toDataURL env c ''image/jpeg'' q) = ''data:image/jpeg;base64,''"
  by (simp add: toDataURL_def)

lemma captured_bitmap_fields:
  "cv_width (captured_bitmap c v) = videoWidth v \<and> cv_height (captured_bitmap c v) = videoHeight v \<and>
   cv_bitmap (captured_bitmap c v) =
     Some \<lparr>di_frame = currentFrame v, di_x = 0, di_y = 0, di_w = videoWidth v, di_h = videoHeight v\<rparr>"
  by (simp add: captured_bitmap_def)

text \<open>
  C4, as the claim states it, fails: with a decoded frame (intrinsic width 640) and a
  canvas whose 2D context cannot be obtained, \<open>captureFrame\<close> of \<open>LiveStream\<close> and of
  \<open>CameraFeed\<close> return \<open>null\<close>, not an image.
\<close>

theorem captureFrame_no_context_counterexample:
  "videoRef sample_live = Some sample_video \<and> videoWidth sample_video = 640 \<and>
   returned (LiveStream_captureFrame sample_env_no_context sample_live) = Inr None \<and>
   cf_videoRef sample_camera = Some sample_video \<and>
   returned (CameraFeed_captureFrame sample_env_no_context sample_camera) = Inr None"
  by (simp add: sample_live_def sample_camera_def sample_video_def sample_env_no_context_def
      returned_def LiveStream_captureFrame_def CameraFeed_captureFrame_def captureFrame_def
      try_bind_def deref_def set_width_def set_height_def getContext2d_def)

text \<open>
  C4, amended: \<open>captureFrame\<close> returns \<open>null\<close> whenever there is no video element or its
  intrinsic width is zero. With a decoded frame, and provided the 2D context of the
  capture canvas is obtained, it returns a non-empty JPEG data URL, encoded at quality
  0.95 from a bitmap whose size is the video's \<open>videoWidth\<close> by \<open>videoHeight\<close> and which
  holds the current frame drawn over all of it. The returned value does not depend on the
  zoom level. This holds for \<open>LiveStream\<close> and for \<open>CameraFeed\<close>.
\<close>

theorem captureFrame_result:
  "(videoRef s = None \<or> (\<exists>v. videoRef s = Some v \<and> videoWidth v = 0)
      \<longrightarrow> returned (LiveStream_captureFrame env s) = Inr None) \<and>
   (cf_videoRef c = None \<or> (\<exists>v. cf_videoRef c = Some v \<and> videoWidth v = 0)
      \<longrightarrow> returned (CameraFeed_captureFrame env c) = Inr None) \<and>
   (videoRef s = Some v \<and> videoWidth v \<noteq> 0 \<and> cv_context2d (capture_canvas env (canvasRef s)) \<longrightarrow>
      (let img = captured_bitmap (capture_canvas env (canvasRef s)) v;
           url = toDataURL env img ''image/jpeg'' (95 / 100)
       in returned (LiveStream_captureFrame env s) = Inr (Some url) \<and>
          url \<noteq> [] \<and> take 23 url = ''data:image/jpeg;base64,'' \<and>
          cv_width img = videoWidth v \<and> cv_height img = videoHeight v \<and>
          cv_bitmap img = Some \<lparr>di_frame = currentFrame v, di_x = 0, di_y = 0,
                                 di_w = videoWidth v, di_h = videoHeight v\<rparr>)) \<and>
   (cf_videoRef c = Some w \<and> videoWidth w \<noteq> 0 \<and> cv_context2d (capture_canvas env (cf_canvasRef c)) \<longrightarrow>
      (let img = captured_bitmap (capture_canvas env (cf_canvasRef c)) w;
           url = toDataURL env img ''image/jpeg'' (95 / 100)
       in returned (CameraFeed_captureFrame env c) = Inr (Some url) \<and>
          url \<noteq> [] \<and> take 23 url = ''data:image/jpeg;base64,'' \<and>
          cv_width img = videoWidth w \<and> cv_height img = videoHeight w \<and>
          cv_bitmap img = Some \<lparr>di_frame = currentFrame w, di_x = 0, di_y = 0,
                                 di_w = videoWidth w, di_h = videoHeight w\<rparr>)) \<and>
   returned (LiveStream_captureFrame env (s\<lparr>zoomLevel := z\<rparr>)) = returned (LiveStream_captureFrame env s) \<and>
   returned (CameraFeed_captureFrame env (c\<lparr>cf_zoomLevel := z\<rparr>)) = returned (CameraFeed_captureFrame env c)"
proof -
  have a: "returned (LiveStream_captureFrame env s) = Inr None"
    if "videoRef s = None \<or> (\<exists>v. videoRef s = Some v \<and> videoWidth v = 0)"
    using captureFrame_not_ready[OF that]
    by (simp add: LiveStream_captureFrame_def try_bind_def returned_def)
  have b: "returned (CameraFeed_captureFrame env c) = Inr None"
    if "cf_videoRef c = None \<or> (\<exists>v. cf_videoRef c = Some v \<and> videoWidth v = 0)"
    using captureFrame_not_ready[OF that]
    by (simp add: CameraFeed_captureFrame_def try_bind_def returned_def)
  have c: "returned (LiveStream_captureFrame env s) =
      Inr (Some (toDataURL env (captured_bitmap (capture_canvas env (canvasRef s)) v) ''image/jpeg'' (95 / 100)))"
    if "videoRef s = Some v" "videoWidth v \<noteq> 0" "cv_context2d (capture_canvas env (canvasRef s))"
    using captureFrame_ready[OF that]
    by (simp add: LiveStream_captureFrame_def try_bind_def returned_def)
  have d: "returned (CameraFeed_captureFrame env c) =
      Inr (Some (toDataURL env (captured_bitmap (capture_canvas env (cf_canvasRef c)) w) ''image/jpeg'' (95 / 100)))"
    if "cf_videoRef c = Some w" "videoWidth w \<noteq> 0" "cv_context2d (capture_canvas env (cf_canvasRef c))"
    using captureFrame_ready[OF that]
    by (simp add: CameraFeed_captureFrame_def try_bind_def returned_def)
  have e: "returned (LiveStream_captureFrame env (s\<lparr>zoomLevel := z\<rparr>)) = returned (LiveStream_captureFrame env s)"
    by (cases "captureFrame env (videoRef s) (canvasRef s)")
       (auto simp: LiveStream_captureFrame_def try_bind_def returned_def)
  have f: "returned (CameraFeed_captureFrame env (c\<lparr>cf_zoomLevel := z\<rparr>)) = returned (CameraFeed_captureFrame env c)"
    by (cases "captureFrame env (cf_videoRef c) (cf_canvasRef c)")
       (auto simp: CameraFeed_captureFrame_def try_bind_def returned_def)
  show ?thesis
    using a b c d e f toDataURL_jpeg captured_bitmap_fields
    by (simp add: Let_def)
qed

theorem captureFrame_result_witness:
  "videoRef sample_live = Some sample_video \<and> videoWidth sample_video \<noteq> 0 \<and>
   cv_context2d (capture_canvas sample_env (canvasRef sample_live)) \<and>
   cf_videoRef sample_camera = Some sample_video \<and>
   cv_context2d (capture_canvas sample_env (cf_canvasRef sample_camera)) \<and>
   returned (LiveStream_captureFrame sample_env sample_live) = Inr (Some ''data:image/jpeg;base64,/9j/4AAQ'') \<and>
   returned (CameraFeed_captureFrame sample_env sample_camera) = Inr (Some ''data:image/jpeg;base64,/9j/4AAQ'') \<and>
   cv_width (captured_bitmap (capture_canvas sample_env (canvasRef sample_live)) sample_video) = 640 \<and>
   cv_height (captured_bitmap (capture_canvas sample_env (canvasRef sample_live)) sample_video) = 480 \<and>
   videoRef (sample_live\<lparr>videoRef := None\<rparr>) = None \<and>
   returned (LiveStream_captureFrame sample_env (sample_live\<lparr>videoRef := None\<rparr>)) = Inr None \<and>
   cf_videoRef (sample_camera\<lparr>cf_videoRef := None\<rparr>) = None \<and>
   returned (CameraFeed_captureFrame sample_env (sample_camera\<lparr>cf_videoRef := None\<rparr>)) = Inr None"
proof -
  have h1: "videoRef sample_live = Some sample_video \<and> videoWidth sample_video \<noteq> 0 \<and>
      cv_context2d (capture_canvas sample_env (canvasRef sample_live))"
    by (simp add: sample_live_def sample_video_def sample_env_def capture_canvas_def)
  have h2: "cf_videoRef sample_camera = Some sample_video \<and> videoWidth sample_video \<noteq> 0 \<and>
      cv_context2d (capture_canvas sample_env (cf_canvasRef sample_camera))"
    by (simp add: sample_camera_def sample_video_def sample_env_def capture_canvas_def)
  have p: "toDataURL sample_env img ''image/jpeg'' q = ''data:image/jpeg;base64,/9j/4AAQ''" for img q
    by (simp add: toDataURL_def sample_env_def)
  have w: "videoWidth sample_video = 640 \<and> videoHeight sample_video = 480"
    by (simp add: sample_video_def)
  have n1: "videoRef (sample_live\<lparr>videoRef := None\<rparr>) = None"
    and n2: "cf_videoRef (sample_camera\<lparr>cf_videoRef := None\<rparr>) = None"
    by simp_all
  have t1: "returned (LiveStream_captureFrame sample_env sample_live) =
        Inr (Some ''data:image/jpeg;base64,/9j/4AAQ'') \<and>
      returned (CameraFeed_captureFrame sample_env sample_camera) =
        Inr (Some ''data:image/jpeg;base64,/9j/4AAQ'')"
    using h1 h2 captureFrame_result [of sample_live sample_env sample_camera sample_video sample_video]
    by (simp only: Let_def p) blast
  have t2: "returned (LiveStream_captureFrame sample_env (sample_live\<lparr>videoRef := None\<rparr>)) = Inr None \<and>
      returned (CameraFeed_captureFrame sample_env (sample_camera\<lparr>cf_videoRef := None\<rparr>)) = Inr None"
    using n1 n2 captureFrame_result [of "sample_live\<lparr>videoRef := None\<rparr>" sample_env
        "sample_camera\<lparr>cf_videoRef := None\<rparr>"]
    by blast
  show ?thesis
    using h1 h2 t1 t2 n1 n2 w by (simp only: captured_bitmap_fields) blast
qed

text \<open>
  C10: \<open>captureFrame\<close> never throws. In every state of the component, and whatever the
  environment's canvas and encoder, the call of \<open>LiveStream\<close> and the call of
  \<open>CameraFeed\<close> end in a returned value, an image or \<open>null\<close>: no property is read from a
  reference that is \<open>null\<close>. When a frame is there and the 2D context of the capture
  canvas cannot be obtained, the value returned is \<open>null\<close>.
\<close>

theorem captureFrame_total:
  "(\<exists>r s'. LiveStream_captureFrame env s = Inr (r, s')) \<and>
   (\<exists>r c'. CameraFeed_captureFrame env c = Inr (r, c')) \<and>
   (\<forall>v. videoRef s = Some v \<and> videoWidth v \<noteq> 0 \<and> \<not> cv_context2d (capture_canvas env (canvasRef s))
        \<longrightarrow> returned (LiveStream_captureFrame env s) = Inr None) \<and>
   (\<forall>v. cf_videoRef c = Some v \<and> videoWidth v \<noteq> 0 \<and> \<not> cv_context2d (capture_canvas env (cf_canvasRef c))
        \<longrightarrow> returned (CameraFeed_captureFrame env c) = Inr None)"
proof -
  obtain r1 c1 where 1: "captureFrame env (videoRef s) (canvasRef s) = Inr (r1, c1)"
    using captureFrame_never_throws by blast
  obtain r2 c2 where 2: "captureFrame env (cf_videoRef c) (cf_canvasRef c) = Inr (r2, c2)"
    using captureFrame_never_throws by blast
  have 3: "returned (LiveStream_captureFrame env s) = Inr None"
    if "videoRef s = Some v" "videoWidth v \<noteq> 0" "\<not> cv_context2d (capture_canvas env (canvasRef s))" for v
    using captureFrame_no_context[OF that]
    by (auto simp: LiveStream_captureFrame_def try_bind_def returned_def)
  have 4: "returned (CameraFeed_captureFrame env c) = Inr None"
    if "cf_videoRef c = Some v" "videoWidth v \<noteq> 0" "\<not> cv_context2d (capture_canvas env (cf_canvasRef c))" for v
    using captureFrame_no_context[OF that]
    by (auto simp: CameraFeed_captureFrame_def try_bind_def returned_def)
  show ?thesis using 1 2 3 4
    by (simp add: LiveStream_captureFrame_def CameraFeed_captureFrame_def try_bind_def)
qed

theorem captureFrame_total_witness:
  "videoRef sample_live = Some sample_video \<and> videoWidth sample_video \<noteq> 0 \<and>
   \<not> cv_context2d (capture_canvas sample_env_no_context (canvasRef sample_live)) \<and>
   cf_videoRef sample_camera = Some sample_video \<and>
   \<not> cv_context2d (capture_canvas sample_env_no_context (cf_canvasRef sample_camera)) \<and>
   returned (LiveStream_captureFrame sample_env_no_context sample_live) = Inr None \<and>
   returned (CameraFeed_captureFrame sample_env_no_context sample_camera) = Inr None \<and>
   (\<exists>r s'. LiveStream_captureFrame sample_env_no_context sample_live = Inr (r, s')) \<and>
   (\<exists>r c'. CameraFeed_captureFrame sample_env_no_context sample_camera = Inr (r, c'))"
proof -
  have h1: "videoRef sample_live = Some sample_video \<and> videoWidth sample_video \<noteq> 0 \<and>
      \<not> cv_context2d (capture_canvas sample_env_no_context (canvasRef sample_live))"
    by (simp add: sample_live_def sample_video_def sample_env_no_context_def capture_canvas_def)
  have h2: "cf_videoRef sample_camera = Some sample_video \<and>
      \<not> cv_context2d (capture_canvas sample_env_no_context (cf_canvasRef sample_camera))"
    by (simp add: sample_camera_def sample_env_no_context_def capture_canvas_def)
  show ?thesis
    using h1 h2 captureFrame_total [of sample_env_no_context sample_live sample_camera]
    by blast
qed

section \<open>The recording pipeline: results\<close>

text \<open>
  C6: a click on the record button while not recording, when
  \<open>liveStreamRef.current?.getStream()\<close> gives no stream, only reports the failure: the
  state after the handler is the state before it with the toast \<open>Stream not ready\<close>
  added. \<open>isRecording\<close> is false, no recorder has been constructed and the list of
  recorded videos is as it was.
\<close>

theorem start_without_stream:
  "\<not> isRecording a \<Longrightarrow> te_stream env = None \<Longrightarrow>
   app_step a (ClickToggle env) =
     a\<lparr>toasts := toasts a @ [ToastError ''Stream not ready'' ''Waiting for connection to Raspberry Pi...'']\<rparr> \<and>
   isRecording (app_step a (ClickToggle env)) = False \<and>
   recordedVideos (app_step a (ClickToggle env)) = recordedVideos a \<and>
   recorders (app_step a (ClickToggle env)) = recorders a \<and>
   mediaRecorderRef (app_step a (ClickToggle env)) = mediaRecorderRef a"
  by (simp add: handleToggleRecording_def Let_def)

theorem start_without_stream_witness:
  "\<not> isRecording sample_app \<and> te_stream no_stream_click = None \<and>
   isRecording (app_step sample_app (ClickToggle no_stream_click)) = False \<and>
   recordedVideos (app_step sample_app (ClickToggle no_stream_click)) = [] \<and>
   recorders (app_step sample_app (ClickToggle no_stream_click)) = [] \<and>
   toasts (app_step sample_app (ClickToggle no_stream_click)) =
     [ToastError ''Stream not ready'' ''Waiting for connection to Raspberry Pi...'']"
proof -
  have h1: "\<not> isRecording sample_app" by (simp add: sample_app_def)
  have h2: "te_stream no_stream_click = None" by (simp add: no_stream_click_def)
  show ?thesis
    using h1 h2 start_without_stream [OF h1 h2]
    by (simp add: sample_app_def)
qed

lemma ondataavailable_run:
  "m < length (recorders a) \<Longrightarrow>
   app_run a (map (DataAvailable m) chunks) =
     a\<lparr>recordedChunksRef := recordedChunksRef a @ filter (\<lambda>b. 0 < blob_size b) chunks\<rparr>"
proof (induction chunks arbitrary: a)
  case Nil
  then show ?case by (simp add: app_run_def)
next
  case (Cons b bs)
  have "app_run a (map (DataAvailable m) (b # bs)) =
      app_run (app_step a (DataAvailable m b)) (map (DataAvailable m) bs)"
    by (simp add: app_run_def)
  also have "\<dots> = (app_step a (DataAvailable m b))
      \<lparr>recordedChunksRef := recordedChunksRef (app_step a (DataAvailable m b)) @
         filter (\<lambda>b. 0 < blob_size b) bs\<rparr>"
    using Cons.prems by (intro Cons.IH) (simp add: ondataavailable_def)
  finally show ?case using Cons.prems by (simp add: ondataavailable_def)
qed

lemma start_recording:
  "\<not> isRecording a \<Longrightarrow> te_stream env = Some stream \<Longrightarrow> te_construct_throws env = None \<Longrightarrow>
   te_start_throws env = None \<Longrightarrow>
   app_step a (ClickToggle env) =
     a\<lparr>isRecording := True, recordedChunksRef := [], recordingStartTimeRef := te_now env,
       recorders := recorders a @
         [\<lparr>mr_stream = stream, mr_mimeType = ''video/webm;codecs=vp9'', mr_state = Recording,
           mr_timeslice = Some 1000, mr_onstop_detectedRisks = detectedRisks a\<rparr>],
       mediaRecorderRef := Some (length (recorders a)),
       toasts := toasts a @ [ToastSuccess ''Recording started'' ''Video recording has begun'']\<rparr>"
  by (simp add: handleToggleRecording_def Let_def)

lemma set_inactive_again: "mr_state r = Inactive \<Longrightarrow> r\<lparr>mr_state := Inactive\<rparr> = r"
  by (cases r) simp

lemma stop_recording:
  "isRecording a \<Longrightarrow> mediaRecorderRef a = Some m \<Longrightarrow> m < length (recorders a) \<Longrightarrow>
   app_step a (ClickToggle env) =
     a\<lparr>isRecording := False,
       recorders := (recorders a)[m := (recorders a ! m)\<lparr>mr_state := Inactive\<rparr>]\<rparr>"
  by (cases "mr_state (recorders a ! m) = Inactive")
     (simp_all add: handleToggleRecording_def Let_def set_inactive_again)

lemma concat_nonempty_chunks:
  "concat (map blob_data (filter (\<lambda>b. 0 < blob_size b) chunks)) = concat (map blob_data chunks)"
  by (induction chunks) (auto simp: blob_size_def)

text \<open>
  C7: a recording is started with \<open>mediaRecorder.start(1000)\<close>, so the recorder is asked
  for a chunk every 1000 ms and not only at stop. Of the chunks it delivers, before
  the stop click and after it, exactly those of non-zero size are appended to
  \<open>recordedChunksRef.current\<close>, in order. The blob of the artifact made by the \<open>stop\<close>
  event is the concatenation of the accumulated chunks, of type \<open>video/webm\<close>, and its
  duration is the floor of the seconds between the start click and the \<open>stop\<close> event. So
  three non-empty chunks and between 3 and 4 seconds give three accumulated chunks and a
  duration of 3.
\<close>

theorem chunks_accumulate_and_concatenate:
  assumes "\<not> isRecording a" and "te_stream env = Some stream"
    and "te_construct_throws env = None" and "te_start_throws env = None"
  shows
    "let m = length (recorders a);
         a1 = app_step a (ClickToggle env);
         a2 = app_run a1 (map (DataAvailable m) chunks);
         a3 = app_step a2 (ClickToggle env');
         a4 = app_run a3 (map (DataAvailable m) last_chunks);
         a5 = app_step a4 (Stop m senv)
     in mr_state (recorders a1 ! m) = Recording \<and> mr_timeslice (recorders a1 ! m) = Some 1000 \<and>
        recordedChunksRef a2 = filter (\<lambda>b. 0 < blob_size b) chunks \<and>
        mr_state (recorders a3 ! m) = Inactive \<and> \<not> isRecording a3 \<and>
        recordedVideos a3 = recordedVideos a \<and>
        recordedChunksRef a4 = filter (\<lambda>b. 0 < blob_size b) (chunks @ last_chunks) \<and>
        length (recordedVideos a5) = Suc (length (take 4 (recordedVideos a))) \<and>
        videoUrl (hd (recordedVideos a5)) = new_Blob (recordedChunksRef a4) ''video/webm'' \<and>
        blob_data (videoUrl (hd (recordedVideos a5))) = concat (map blob_data (chunks @ last_chunks)) \<and>
        duration (hd (recordedVideos a5)) = (se_now senv - te_now env) div 1000 \<and>
        (length chunks = 3 \<and> (\<forall>b\<in>set chunks. 0 < blob_size b) \<and>
         (\<forall>b\<in>set last_chunks. blob_size b = 0) \<and>
         3000 \<le> se_now senv - te_now env \<and> se_now senv - te_now env < 4000
         \<longrightarrow> recordedChunksRef a4 = chunks \<and> length (recordedChunksRef a4) = 3 \<and>
             duration (hd (recordedVideos a5)) = 3)"
proof -
  define m where "m = length (recorders a)"
  define a1 where "a1 = app_step a (ClickToggle env)"
  define a2 where "a2 = app_run a1 (map (DataAvailable m) chunks)"
  define a3 where "a3 = app_step a2 (ClickToggle env')"
  define a4 where "a4 = app_run a3 (map (DataAvailable m) last_chunks)"
  define a5 where "a5 = app_step a4 (Stop m senv)"
  have e1: "a1 = a\<lparr>isRecording := True, recordedChunksRef := [], recordingStartTimeRef := te_now env,
       recorders := recorders a @
         [\<lparr>mr_stream = stream, mr_mimeType = ''video/webm;codecs=vp9'', mr_state = Recording,
           mr_timeslice = Some 1000, mr_onstop_detectedRisks = detectedRisks a\<rparr>],
       mediaRecorderRef := Some m,
       toasts := toasts a @ [ToastSuccess ''Recording started'' ''Video recording has begun'']\<rparr>"
    unfolding a1_def m_def using assms by (rule start_recording)
  have m1: "m < length (recorders a1)" by (simp add: e1 m_def)
  have e2: "a2 = a1\<lparr>recordedChunksRef := filter (\<lambda>b. 0 < blob_size b) chunks\<rparr>"
    unfolding a2_def using ondataavailable_run[OF m1, of chunks] by (simp add: e1)
  have e3: "a3 = a2\<lparr>isRecording := False,
       recorders := (recorders a2)[m := (recorders a2 ! m)\<lparr>mr_state := Inactive\<rparr>]\<rparr>"
    unfolding a3_def by (rule stop_recording) (simp_all add: e2 e1 m_def)
  have m3: "m < length (recorders a3)" by (simp add: e3 e2 e1 m_def)
  have e4: "a4 = a3\<lparr>recordedChunksRef := filter (\<lambda>b. 0 < blob_size b) (chunks @ last_chunks)\<rparr>"
    unfolding a4_def using ondataavailable_run[OF m3, of last_chunks] by (simp add: e3 e2)
  have m4: "m < length (recorders a4)" using m3 by (simp add: e4)
  have s4: "recordingStartTimeRef a4 = te_now env" "recordedVideos a4 = recordedVideos a"
    by (simp_all add: e4 e3 e2 e1)
  have e5: "recordedVideos a5 =
      \<lparr>rv_id = ''video-'' @ ToString (se_now senv), rv_timestamp = se_now senv,
       thumbnailUrl = (case se_captureFrame senv of None \<Rightarrow> [] | Some u \<Rightarrow> u),
       videoUrl = new_Blob (recordedChunksRef a4) ''video/webm'',
       duration = (se_now senv - te_now env) div 1000,
       risks = mr_onstop_detectedRisks (recorders a4 ! m),
       filename = ''CAM-01_'' @ map (\<lambda>c. if c = CHR '':'' then CHR ''-'' else c)
                    (take 19 (se_toISOString senv)) @ ''.webm''\<rparr> # take 4 (recordedVideos a)"
    unfolding a5_def using m4 s4 by (simp add: onstop_def Let_def)
  have p1: "mr_state (recorders a1 ! m) = Recording \<and> mr_timeslice (recorders a1 ! m) = Some 1000"
    by (simp add: e1 m_def)
  have p2: "recordedChunksRef a2 = filter (\<lambda>b. 0 < blob_size b) chunks" by (simp add: e2)
  have p3: "mr_state (recorders a3 ! m) = Inactive \<and> \<not> isRecording a3 \<and> recordedVideos a3 = recordedVideos a"
    by (simp add: e3 e2 e1 m_def)
  have p4: "recordedChunksRef a4 = filter (\<lambda>b. 0 < blob_size b) (chunks @ last_chunks)"
    by (simp add: e4)
  have p5: "blob_data (videoUrl (hd (recordedVideos a5))) = concat (map blob_data (chunks @ last_chunks))"
    unfolding e5 p4
    by (simp only: list.sel RecordedVideo.simps new_Blob_def blob.simps concat_nonempty_chunks)
  have p6: "recordedChunksRef a4 = chunks"
    if "\<forall>b\<in>set chunks. 0 < blob_size b" "\<forall>b\<in>set last_chunks. blob_size b = 0"
    using that by (simp add: p4)
  have p7: "(se_now senv - te_now env) div 1000 = 3"
    if "3000 \<le> se_now senv - te_now env" "se_now senv - te_now env < 4000"
    using that by linarith
  show ?thesis
    unfolding Let_def m_def[symmetric] a1_def[symmetric] a2_def[symmetric] a3_def[symmetric]
      a4_def[symmetric] a5_def[symmetric]
    using p1 p2 p3 p4 p5 p6 p7 by (simp add: e5)
qed

theorem chunks_accumulate_and_concatenate_witness:
  "\<not> isRecording sample_app \<and> te_stream start_click = Some \<lparr>ms_id = 7, ms_pc = 0\<rparr> \<and>
   te_construct_throws start_click = None \<and> te_start_throws start_click = None \<and>
   map blob_size three_chunks = [1, 2, 1] \<and> map blob_size [chunk []] = [0] \<and>
   3000 \<le> se_now sample_stop - te_now start_click \<and> se_now sample_stop - te_now start_click < 4000 \<and>
   (let a1 = app_step sample_app (ClickToggle start_click);
        a2 = app_run a1 (map (DataAvailable 0) three_chunks);
        a3 = app_step a2 (ClickToggle stop_click);
        a4 = app_run a3 (map (DataAvailable 0) [chunk []]);
        a5 = app_step a4 (Stop 0 sample_stop)
    in mr_timeslice (recorders a1 ! 0) = Some 1000 \<and> recordedChunksRef a4 = three_chunks \<and>
       length (recordedChunksRef a4) = 3 \<and>
       blob_data (videoUrl (hd (recordedVideos a5))) = [1, 2, 3, 4] \<and>
       duration (hd (recordedVideos a5)) = 3)"
proof -
  have h1: "\<not> isRecording sample_app" by (simp add: sample_app_def)
  have h2: "te_stream start_click = Some \<lparr>ms_id = 7, ms_pc = 0\<rparr>"
    and h3: "te_construct_throws start_click = None" and h4: "te_start_throws start_click = None"
    by (simp_all add: start_click_def)
  have h5: "length three_chunks = 3 \<and> (\<forall>b\<in>set three_chunks. 0 < blob_size b) \<and>
      (\<forall>b\<in>set [chunk []]. blob_size b = 0)"
    by (simp add: three_chunks_def chunk_def blob_size_def)
  have h6: "3000 \<le> se_now sample_stop - te_now start_click \<and>
      se_now sample_stop - te_now start_click < 4000"
    by (simp add: sample_stop_def start_click_def)
  have d: "concat (map blob_data (three_chunks @ [chunk []])) = [1, 2, 3, 4]"
    by (simp add: three_chunks_def chunk_def)
  have r0: "length (recorders sample_app) = 0" by (simp add: sample_app_def)
  note t = chunks_accumulate_and_concatenate [OF h1 h2 h3 h4, of three_chunks stop_click
      "[chunk []]" sample_stop]
  have s: "map blob_size three_chunks = [1, 2, 1] \<and> map blob_size [chunk []] = [0]"
    by (simp add: three_chunks_def chunk_def blob_size_def)
  show ?thesis
    using h1 h2 h3 h4 h5 h6 s t unfolding Let_def r0 d by blast
qed

lemma stop_overlays_are_start_overlays:
  assumes "\<not> isRecording a" and "te_stream env = Some stream"
    and "te_construct_throws env = None" and "te_start_throws env = None"
  shows
    "let m = length (recorders a);
         a1 = app_step a (ClickToggle env);
         a2 = app_step a1 (SetDetectedRisks rs);
         a3 = app_step a2 (ClickToggle env');
         a4 = app_step a3 (Stop m senv)
     in detectedRisks a4 = rs \<and> risks (hd (recordedVideos a4)) = detectedRisks a"
proof -
  have e1: "app_step a (ClickToggle env) =
     a\<lparr>isRecording := True, recordedChunksRef := [], recordingStartTimeRef := te_now env,
       recorders := recorders a @
         [\<lparr>mr_stream = stream, mr_mimeType = ''video/webm;codecs=vp9'', mr_state = Recording,
           mr_timeslice = Some 1000, mr_onstop_detectedRisks = detectedRisks a\<rparr>],
       mediaRecorderRef := Some (length (recorders a)),
       toasts := toasts a @ [ToastSuccess ''Recording started'' ''Video recording has begun'']\<rparr>"
    using assms by (rule start_recording)
  show ?thesis
    unfolding Let_def e1
    by (simp add: handleToggleRecording_def onstop_def Let_def)
qed

text \<open>
  C3, evaluated on the code: a recording is started while the detections are
  \<open>[sample_risk]\<close>; the detection timer then replaces them by \<open>[other_risk]\<close>; the
  recording is stopped 3.2 seconds after its start. The artifact carries the detections
  of the start, not those active at the stop: the \<open>onstop\<close> closure was created by the
  handler of the render that started the recording and holds that render's
  \<open>detectedRisks\<close>. Its duration is 3.
\<close>

theorem stop_attaches_start_time_overlays:
  "let a = app_run sample_app
             [ClickToggle start_click, DataAvailable 0 (chunk [1, 2, 3]),
              SetDetectedRisks [other_risk], ClickToggle stop_click, Stop 0 sample_stop]
   in detectedRisks a = [other_risk] \<and> map risks (recordedVideos a) = [[sample_risk]] \<and>
      sample_risk \<noteq> other_risk \<and> map duration (recordedVideos a) = [3]"
  by (simp add: app_run_def sample_app_def start_click_def stop_click_def sample_stop_def
      handleToggleRecording_def onstop_def ondataavailable_def Let_def chunk_def blob_size_def
      sample_risk_def other_risk_def)

section \<open>The overlay renderer: results\<close>

lemma Math_round_nearest: "\<bar>of_int (Math_round q) - q\<bar> \<le> 1 / 2"
  unfolding Math_round_def by linarith

text \<open>
  The label of a box is the type of the detection and, in parentheses, its confidence
  rounded to the nearest integer, followed by a percent sign.
\<close>

lemma risk_label_rounds:
  "risk_label risk = rd_type risk @ '' ('' @ ToString (Math_round (rd_confidence risk)) @ ''%)'' \<and>
   \<bar>of_int (Math_round (rd_confidence risk)) - rd_confidence risk\<bar> \<le> 1 / 2"
  using Math_round_nearest[of "rd_confidence risk"] by (simp add: risk_label_def)

text \<open>
  What the three components draw for the detections supplied, in their order.
  \<open>LiveStream\<close> and \<open>CameraFeed\<close> draw every box where it is on the frame that is not
  zoomed, whatever the zoom level, and \<open>LiveStream\<close> draws none while it is not connected.
  \<open>MediaViewer\<close> multiplies the size of a box by the zoom factor and leaves its top left
  corner where it is.
\<close>

lemma overlay_boxes_drawn:
  "(connectionStatus s = StatusConnected \<longrightarrow>
      map (project W H) (LiveStream_overlays s rs) = map (unscaled_rect W H) rs \<and>
      map box_label (LiveStream_overlays s rs) = map risk_label rs) \<and>
   (connectionStatus s \<noteq> StatusConnected \<longrightarrow> LiveStream_overlays s rs = []) \<and>
   map (project W H) (CameraFeed_overlays c rs) = map (unscaled_rect W H) rs \<and>
   map box_label (CameraFeed_overlays c rs) = map risk_label rs \<and>
   map (project W H) (MediaViewer_overlays zoom rs) =
     map (\<lambda>risk. (unscaled_rect W H risk)
            \<lparr>r_width := of_nat zoom * (rd_width risk / 100 * W),
             r_height := of_nat zoom * (rd_height risk / 100 * H)\<rparr>) rs \<and>
   map box_label (MediaViewer_overlays zoom rs) = map risk_label rs"
  by (simp add: LiveStream_overlays_def CameraFeed_overlays_def MediaViewer_overlays_def
      project_def unscaled_rect_def Let_def comp_def)

text \<open>At zoom factor 1 every component draws the specification's rectangle.\<close>

lemma overlay_boxes_at_zoom_1:
  "spec_overlay_rect W H 1 risk = unscaled_rect W H risk \<and>
   map (project W H) (MediaViewer_overlays 1 rs) = map (spec_overlay_rect W H 1) rs \<and>
   map (project W H) (CameraFeed_overlays c rs) = map (spec_overlay_rect W H 1) rs \<and>
   map (project W H) (LiveStream_overlays (s\<lparr>connectionStatus := StatusConnected\<rparr>) rs) =
     map (spec_overlay_rect W H 1) rs"
  by (simp add: LiveStream_overlays_def CameraFeed_overlays_def MediaViewer_overlays_def
      project_def unscaled_rect_def spec_overlay_rect_def Let_def comp_def)

text \<open>
  C8, evaluated on the code: a detection at \<open>(10%, 20%)\<close> of size \<open>(20%, 10%)\<close>, a viewport
  of 1000 by 500 pixels and zoom level 2. The specification's rectangle, scaled about the
  origin of the viewport, is at (200, 200) with size 400 by 100. The connected
  \<open>LiveStream\<close> and \<open>CameraFeed\<close> scale the video by 2 and every box by 1: the box is at
  (100, 100) with size 200 by 50, where it was before the zoom. \<open>MediaViewer\<close> scales the
  box by 2 about the box's own top left corner: the size is doubled, the position is
  not. The label is right: the confidence 86.5 is shown as 87.
\<close>

theorem overlay_boxes_ignore_zoom:
  "zoomLevel sample_live = 2 \<and> connectionStatus sample_live = StatusConnected \<and>
   LiveStream_video_scale sample_live = 2 \<and>
   map box_scale (LiveStream_overlays sample_live [sample_risk]) = [1] \<and>
   map (project 1000 500) (LiveStream_overlays sample_live [sample_risk]) =
     [\<lparr>r_left = 100, r_top = 100, r_width = 200, r_height = 50\<rparr>] \<and>
   cf_zoomLevel sample_camera = 2 \<and> CameraFeed_video_scale sample_camera = 2 \<and>
   map box_scale (CameraFeed_overlays sample_camera [sample_risk]) = [1] \<and>
   map (project 1000 500) (CameraFeed_overlays sample_camera [sample_risk]) =
     [\<lparr>r_left = 100, r_top = 100, r_width = 200, r_height = 50\<rparr>] \<and>
   MediaViewer_video_scale 2 = 2 \<and>
   map (project 1000 500) (MediaViewer_overlays 2 [sample_risk]) =
     [\<lparr>r_left = 100, r_top = 100, r_width = 400, r_height = 100\<rparr>] \<and>
   spec_overlay_rect 1000 500 2 sample_risk =
     \<lparr>r_left = 200, r_top = 200, r_width = 400, r_height = 100\<rparr> \<and>
   map box_label (LiveStream_overlays sample_live [sample_risk]) = [''Fire Hazard (87%)'']"
  by (simp add: sample_live_def sample_camera_def sample_risk_def LiveStream_overlays_def
      CameraFeed_overlays_def MediaViewer_overlays_def LiveStream_video_scale_def
      CameraFeed_video_scale_def MediaViewer_video_scale_def project_def spec_overlay_rect_def
      Let_def risk_label_def Math_round_def ToString_def magnitude_def digit_char_def)

text \<open>\<open>ToString\<close> at the border of the exponent notation.\<close>

lemma ToString_exponent:
  "ToString 87 = ''87'' \<and> ToString (- 5) = ''-5'' \<and>
   ToString 999999999999999999999 = ''999999999999999999999'' \<and>
   ToString 1000000000000000000000 = ''1e+21'' \<and>
   ToString 1250000000000000000000 = ''1.25e+21''"
  by (simp add: ToString_def magnitude_def exponential_def digit_char_def Let_def)

section \<open>The session negotiator: results\<close>

lemma update_effect_other [simp]:
  "component (update_effect k f pg) = component pg"
  "peerConnections (update_effect k f pg) = peerConnections pg"
  "fetches (update_effect k f pg) = fetches pg"
  "console_errors (update_effect k f pg) = console_errors pg"
  "current_effect (update_effect k f pg) = current_effect pg"
  "detached (update_effect k f pg) = detached pg"
  "length (effects (update_effect k f pg)) = length (effects pg)"
  by (simp_all add: update_effect_def)

lemma update_effect_nth:
  "effects (update_effect k f pg) ! j =
     (if j = k \<and> k < length (effects pg) then f (effects pg ! k) else effects pg ! j)"
  by (simp add: update_effect_def)

lemma update_pc_other [simp]:
  "component (update_pc p f pg) = component pg"
  "effects (update_pc p f pg) = effects pg"
  "fetches (update_pc p f pg) = fetches pg"
  "console_errors (update_pc p f pg) = console_errors pg"
  "current_effect (update_pc p f pg) = current_effect pg"
  "detached (update_pc p f pg) = detached pg"
  "length (peerConnections (update_pc p f pg)) = length (peerConnections pg)"
  by (simp_all add: update_pc_def)

lemma update_pc_nth:
  "peerConnections (update_pc p f pg) ! j =
     (if j = p \<and> p < length (peerConnections pg) then f (peerConnections pg ! p)
      else peerConnections pg ! j)"
  by (simp add: update_pc_def)

lemma update_prior_other [simp]:
  "component (case r of None \<Rightarrow> pg | Some p \<Rightarrow> update_pc p f pg) = component pg"
  "effects (case r of None \<Rightarrow> pg | Some p \<Rightarrow> update_pc p f pg) = effects pg"
  "fetches (case r of None \<Rightarrow> pg | Some p \<Rightarrow> update_pc p f pg) = fetches pg"
  "console_errors (case r of None \<Rightarrow> pg | Some p \<Rightarrow> update_pc p f pg) = console_errors pg"
  "current_effect (case r of None \<Rightarrow> pg | Some p \<Rightarrow> update_pc p f pg) = current_effect pg"
  "detached (case r of None \<Rightarrow> pg | Some p \<Rightarrow> update_pc p f pg) = detached pg"
  "length (peerConnections (case r of None \<Rightarrow> pg | Some p \<Rightarrow> update_pc p f pg)) =
     length (peerConnections pg)"
  by (simp_all split: option.splits)

lemma close_prior_other [simp]:
  "component (case r of None \<Rightarrow> pg | Some p \<Rightarrow> pc_close p pg) = component pg"
  "effects (case r of None \<Rightarrow> pg | Some p \<Rightarrow> pc_close p pg) = effects pg"
  "fetches (case r of None \<Rightarrow> pg | Some p \<Rightarrow> pc_close p pg) = fetches pg"
  "console_errors (case r of None \<Rightarrow> pg | Some p \<Rightarrow> pc_close p pg) = console_errors pg"
  "current_effect (case r of None \<Rightarrow> pg | Some p \<Rightarrow> pc_close p pg) = current_effect pg"
  "detached (case r of None \<Rightarrow> pg | Some p \<Rightarrow> pc_close p pg) = detached pg"
  "length (peerConnections (case r of None \<Rightarrow> pg | Some p \<Rightarrow> pc_close p pg)) =
     length (peerConnections pg)"
  by (simp_all add: pc_close_def split: option.splits)


text \<open>What the effect leaves when it has run up to the first await.\<close>

lemma run_effect_state:
  assumes "url \<noteq> []"
  shows "length (effects (run_effect url pg)) = Suc (length (effects pg))"
    and "effects (run_effect url pg) ! length (effects pg) =
          \<lparr>ef_streamUrl = url, ef_isMounted = True, ef_pc = Some (length (peerConnections pg)),
           ef_offer = None, ef_answer = None, ef_await = AwaitCreateOffer\<rparr>"
    and "length (peerConnections (run_effect url pg)) = Suc (length (peerConnections pg))"
    and "peerConnections (run_effect url pg) ! length (peerConnections pg) =
          \<lparr>pc_closed = False, pc_iceServers = [''stun:stun.l.google.com:19302''],
           pc_transceivers = [(''video'', ''recvonly'')], pc_localDescription = None,
           pc_remoteDescription = None, pc_applying = None,
           pc_ontrack = Some (length (effects pg))\<rparr>"
    and "fetches (run_effect url pg) = fetches pg"
    and "console_errors (run_effect url pg) = console_errors pg"
    and "component (run_effect url pg) =
          (component pg)\<lparr>connectionStatus := StatusConnecting, errorMessage := None,
                           pcRef := Some (length (peerConnections pg))\<rparr>"
    and "current_effect (run_effect url pg) = Some (length (effects pg))"
  using assms
  by (simp_all add: run_effect_def startStream_def Let_def new_RTCPeerConnection_def
      update_effect_nth update_pc_nth nth_append)

text \<open>One continuation of \<open>startStream\<close> at a time.\<close>

lemma resume_settled:
  "k < length (effects pg) \<Longrightarrow> ef_await (effects pg ! k) = Settled \<Longrightarrow> resume csd k r pg = pg"
  by (simp add: resume_def)



lemma resume_offer:
  "k < length (effects pg) \<Longrightarrow> ef_await (effects pg ! k) = AwaitCreateOffer \<Longrightarrow>
   resume csd k (ResolvedOffer offer) pg =
     update_effect k (\<lambda>e. e\<lparr>ef_offer := Some offer, ef_await := AwaitSetLocalDescription\<rparr>) pg"
  by (simp add: resume_def)

lemma resume_setLocalDescription:
  "k < length (effects pg) \<Longrightarrow> ef_await (effects pg ! k) = AwaitSetLocalDescription \<Longrightarrow>
   ef_pc (effects pg ! k) = Some p \<Longrightarrow> ef_offer (effects pg ! k) = Some offer \<Longrightarrow>
   resume csd k ResolvedVoid pg =
     update_effect k (\<lambda>e. e\<lparr>ef_await := AwaitFetch\<rparr>)
       ((update_pc p (\<lambda>c. c\<lparr>pc_localDescription := Some offer\<rparr>) pg)
          \<lparr>fetches := fetches pg @
             [\<lparr>req_url = ef_streamUrl (effects pg ! k), req_method = ''POST'', req_body = sdp offer,
               req_headers = [(''Content-Type'', ''application/sdp'')]\<rparr>]\<rparr>)"
  by (simp add: resume_def Let_def)

lemma resume_response_ok:
  "k < length (effects pg) \<Longrightarrow> ef_await (effects pg ! k) = AwaitFetch \<Longrightarrow> response_ok response \<Longrightarrow>
   resume csd k (ResolvedResponse response) pg = update_effect k (\<lambda>e. e\<lparr>ef_await := AwaitText\<rparr>) pg"
  by (simp add: resume_def)


lemma with_second_connection_other [simp]:
  "component (with_second_connection pg) = component pg"
  "effects (with_second_connection pg) = effects pg"
  "fetches (with_second_connection pg) = fetches pg"
  "console_errors (with_second_connection pg) = console_errors pg"
  "current_effect (with_second_connection pg) = current_effect pg"
  "detached (with_second_connection pg) = detached pg"
  "length (peerConnections (with_second_connection pg)) = Suc (length (peerConnections pg))"
  "j < length (peerConnections pg) \<Longrightarrow>
     peerConnections (with_second_connection pg) ! j = peerConnections pg ! j"
  "\<not> pc_closed (peerConnections (with_second_connection pg) ! length (peerConnections pg))"
  by (simp_all add: with_second_connection_def new_RTCPeerConnection_def nth_append)


lemma resume_text:
  "k < length (effects pg) \<Longrightarrow> ef_await (effects pg ! k) = AwaitText \<Longrightarrow>
   resume csd k (ResolvedText answerSdp) pg =
     (case csd \<lparr>sd_type = SdpAnswer, sdp = answerSdp\<rparr> of
        Inl err \<Rightarrow> catch_block k err (with_second_connection pg)
      | Inr d \<Rightarrow>
          update_effect k (\<lambda>e. e\<lparr>ef_answer := Some d, ef_await := AwaitSetRemoteDescription\<rparr>)
            (case ef_pc (effects pg ! k) of
               None \<Rightarrow> with_second_connection pg
             | Some pc \<Rightarrow> update_pc pc (\<lambda>c. c\<lparr>pc_applying := Some d\<rparr>) (with_second_connection pg)))"
  by (cases "csd \<lparr>sd_type = SdpAnswer, sdp = answerSdp\<rparr>")
     (simp_all add: resume_def with_second_connection_def new_RTCPeerConnection_def Let_def
        split: option.splits)

lemma resume_setRemoteDescription:
  "k < length (effects pg) \<Longrightarrow> ef_await (effects pg ! k) = AwaitSetRemoteDescription \<Longrightarrow>
   ef_pc (effects pg ! k) = Some p \<Longrightarrow>
   resume csd k ResolvedVoid pg =
     update_effect k (\<lambda>e. e\<lparr>ef_await := Settled\<rparr>)
       (update_pc p
          (\<lambda>c. c\<lparr>pc_remoteDescription := ef_answer (effects pg ! k), pc_applying := None\<rparr>) pg)"
  by (simp add: resume_def Let_def)

lemma catch_block_state:
  assumes "k < length (effects pg)"
  shows "fetches (catch_block k err pg) = fetches pg"
    and "peerConnections (catch_block k err pg) = peerConnections pg"
    and "length (effects (catch_block k err pg)) = length (effects pg)"
    and "current_effect (catch_block k err pg) = current_effect pg"
    and "console_errors (catch_block k err pg) = console_errors pg @ [err]"
    and "ef_await (effects (catch_block k err pg) ! k) = Settled"
    and "component (catch_block k err pg) =
          (if ef_isMounted (effects pg ! k)
           then (component pg)\<lparr>connectionStatus := StatusError,
                  errorMessage := Some ''Cannot connect to Camera. Check Raspberry Pi.''\<rparr>
           else component pg)"
  using assms by (simp_all add: catch_block_def Let_def update_effect_nth)

lemmas negotiation_defs = page_run_def run_effect_def startStream_def resume_def catch_block_def
  cleanup_def track_event_def ontrack_handler_def update_effect_def update_pc_def pc_close_def
  new_RTCPeerConnection_def initial_page_def initial_component_def open_connections_def Let_def

lemma url_facts:
  "whep_url \<noteq> [] \<and> other_url \<noteq> [] \<and> other_url \<noteq> whep_url \<and> whep_url \<noteq> other_url"
  by (simp add: whep_url_def other_url_def)

lemma response_facts: "response_ok created \<and> \<not> response_ok unavailable"
  by (simp add: response_ok_def created_def unavailable_def)

lemma page_run_append: "page_run csd pg (xs @ ys) = page_run csd (page_run csd pg xs) ys"
  by (simp add: page_run_def)

lemma page_run_one: "page_run csd pg [ev] = page_step csd pg ev"
  by (simp add: page_run_def)

text \<open>The sample negotiation, evaluated stage by stage.\<close>

lemma posted_run: "page_run csd initial_page posted = posted_page"
  by (simp add: posted_def negotiation_defs url_facts posted_page_def)

lemma answered_split:
  "answered = posted @ [Settle 0 (ResolvedResponse created), Settle 0 (ResolvedText ''v=0 answer'')]"
  by (simp add: answered_def posted_def)

lemma answered_run_returns:
  "csd \<lparr>sd_type = SdpAnswer, sdp = ''v=0 answer''\<rparr> = Inr d \<Longrightarrow>
   page_run csd initial_page answered = answer_built_page d"
  unfolding answered_split page_run_append posted_run
  by (simp add: negotiation_defs response_facts posted_page_def answer_built_page_def
      unconfigured_connection_def)

lemma answered_run_throws:
  "csd \<lparr>sd_type = SdpAnswer, sdp = ''v=0 answer''\<rparr> = Inl err \<Longrightarrow>
   page_run csd initial_page answered = answer_failed_page err"
  unfolding answered_split page_run_append posted_run
  by (simp add: negotiation_defs response_facts posted_page_def answer_failed_page_def
      unconfigured_connection_def)

text \<open>
  The path the source means to take, on a runtime that had the method: the track is
  delivered while the answer is applied, and the component is connected.
\<close>

lemma connected_run: "page_run csd_returns initial_page connected = connected_page"
proof -
  have "csd_returns \<lparr>sd_type = SdpAnswer, sdp = ''v=0 answer''\<rparr> = Inr sample_answer"
    by (simp add: csd_returns_def sample_answer_def)
  then have "page_run csd_returns initial_page answered = answer_built_page sample_answer"
    by (rule answered_run_returns [where csd = csd_returns])
  then show ?thesis
    unfolding connected_def page_run_append
    by (simp add: negotiation_defs posted_page_def answer_built_page_def connected_page_def
        unconfigured_connection_def)
qed

text \<open>
  C2, evaluated on the code, for every negotiation the gateway answers with a 2xx
  response, however it starts (the effect runs on mount and on every change of
  \<open>streamUrl\<close>). The first half of the claim holds: the peer connection \<open>p\<close> the
  negotiation constructs is the one in \<open>pcRef\<close> and gets one \<open>recvonly\<close> video
  transceiver; no request is made before the offer is the local description of \<open>p\<close>;
  then exactly one request is made, a POST to \<open>streamUrl\<close> whose body is the offer's
  \<open>sdp\<close> and whose only header is \<open>Content-Type: application/sdp\<close>. The second half
  fails: when the body of the response has been read, the call of
  \<open>createSessionDescription\<close> throws, so \<open>pc.setRemoteDescription\<close> is not called. The
  connection has no remote description and applies none, the \<open>TypeError\<close> is logged, the
  status is \<open>error\<close> with the message of the \<open>catch\<close> block, and \<open>startStream\<close> has
  ended: nothing that settles for it later changes the page.
\<close>

theorem answer_is_never_applied:
  assumes "url \<noteq> []" and "response_ok response"
  shows
    "let k = length (effects pg0); p = length (peerConnections pg0);
         pg1 = run_effect url pg0;
         pg2 = resume csd_throws k (ResolvedOffer offer) pg1;
         pg3 = resume csd_throws k ResolvedVoid pg2;
         pg4 = resume csd_throws k (ResolvedResponse response) pg3;
         pg5 = resume csd_throws k (ResolvedText answerSdp) pg4
     in pcRef (component pg1) = Some p \<and>
        pc_transceivers (peerConnections pg1 ! p) = [(''video'', ''recvonly'')] \<and>
        fetches pg2 = fetches pg0 \<and>
        pc_localDescription (peerConnections pg3 ! p) = Some offer \<and>
        fetches pg3 = fetches pg0 @
          [\<lparr>req_url = url, req_method = ''POST'', req_body = sdp offer,
            req_headers = [(''Content-Type'', ''application/sdp'')]\<rparr>] \<and>
        ef_await (effects pg4 ! k) = AwaitText \<and>
        fetches pg5 = fetches pg3 \<and>
        pc_remoteDescription (peerConnections pg5 ! p) = None \<and>
        pc_applying (peerConnections pg5 ! p) = None \<and>
        console_errors pg5 =
          console_errors pg0 @ [TypeError ''createSessionDescription is not a function''] \<and>
        connectionStatus (component pg5) = StatusError \<and>
        errorMessage (component pg5) = Some ''Cannot connect to Camera. Check Raspberry Pi.'' \<and>
        ef_await (effects pg5 ! k) = Settled \<and>
        (\<forall>r. resume csd_throws k r pg5 = pg5)"
proof -
  define k where "k = length (effects pg0)"
  define p where "p = length (peerConnections pg0)"
  define pg1 where "pg1 = run_effect url pg0"
  define pg2 where "pg2 = resume csd_throws k (ResolvedOffer offer) pg1"
  define pg3 where "pg3 = resume csd_throws k ResolvedVoid pg2"
  define pg4 where "pg4 = resume csd_throws k (ResolvedResponse response) pg3"
  define pg5 where "pg5 = resume csd_throws k (ResolvedText answerSdp) pg4"
  define err where "err = TypeError ''createSessionDescription is not a function''"
  note s1 = run_effect_state [OF assms(1), of pg0, folded pg1_def k_def p_def]
  have k1: "k < length (effects pg1)" using s1(1) by simp
  have p1: "p < length (peerConnections pg1)" using s1(3) by simp
  have e2: "pg2 = update_effect k (\<lambda>e. e\<lparr>ef_offer := Some offer, ef_await := AwaitSetLocalDescription\<rparr>) pg1"
    unfolding pg2_def using k1 s1(2) by (intro resume_offer) simp_all
  have k2: "k < length (effects pg2)" using k1 by (simp add: e2)
  have f2: "effects pg2 ! k = \<lparr>ef_streamUrl = url, ef_isMounted = True, ef_pc = Some p,
      ef_offer = Some offer, ef_answer = None, ef_await = AwaitSetLocalDescription\<rparr>"
    using k1 s1(2) by (simp add: e2 update_effect_nth)
  have e3: "pg3 = update_effect k (\<lambda>e. e\<lparr>ef_await := AwaitFetch\<rparr>)
       ((update_pc p (\<lambda>c. c\<lparr>pc_localDescription := Some offer\<rparr>) pg2)
          \<lparr>fetches := fetches pg2 @
             [\<lparr>req_url = url, req_method = ''POST'', req_body = sdp offer,
               req_headers = [(''Content-Type'', ''application/sdp'')]\<rparr>]\<rparr>)"
    unfolding pg3_def using resume_setLocalDescription [OF k2, of p offer csd_throws] f2 by simp
  have k3: "k < length (effects pg3)" using k2 by (simp add: e3 update_effect_def)
  have f3: "effects pg3 ! k = \<lparr>ef_streamUrl = url, ef_isMounted = True, ef_pc = Some p,
      ef_offer = Some offer, ef_answer = None, ef_await = AwaitFetch\<rparr>"
    using k2 f2 by (simp add: e3 update_effect_def)
  have c3: "peerConnections pg3 ! p = (peerConnections pg1 ! p)\<lparr>pc_localDescription := Some offer\<rparr>"
    using p1 by (simp add: e3 e2 update_effect_def update_pc_nth)
  have l3: "length (peerConnections pg3) = length (peerConnections pg1)"
    by (simp add: e3 e2 update_effect_def)
  have e4: "pg4 = update_effect k (\<lambda>e. e\<lparr>ef_await := AwaitText\<rparr>) pg3"
    unfolding pg4_def using k3 f3 assms(2) by (intro resume_response_ok) simp_all
  have k4: "k < length (effects pg4)" using k3 by (simp add: e4)
  have f4: "effects pg4 ! k = \<lparr>ef_streamUrl = url, ef_isMounted = True, ef_pc = Some p,
      ef_offer = Some offer, ef_answer = None, ef_await = AwaitText\<rparr>"
    using k3 f3 by (simp add: e4 update_effect_nth)
  have p4: "p < length (peerConnections pg4)" using p1 l3 by (simp add: e4)
  have e5: "pg5 = catch_block k err (with_second_connection pg4)"
    unfolding pg5_def err_def using resume_text [OF k4, of csd_throws answerSdp] f4
    by (simp add: csd_throws_def)
  have k4': "k < length (effects (with_second_connection pg4))" using k4 by simp
  note s5 = catch_block_state [OF k4', of err, folded e5]
  have k5: "k < length (effects pg5)" using s5(3) k4 by simp
  have c5: "peerConnections pg5 ! p = peerConnections pg3 ! p"
    using p4 by (simp add: s5(2) e4)
  have r1: "pcRef (component pg1) = Some p" by (simp add: s1(7))
  have r2: "pc_transceivers (peerConnections pg1 ! p) = [(''video'', ''recvonly'')]"
    by (simp add: s1(4))
  have r3: "fetches pg2 = fetches pg0" by (simp add: e2 s1(5))
  have r4: "pc_localDescription (peerConnections pg3 ! p) = Some offer" by (simp add: c3)
  have r5: "fetches pg3 = fetches pg0 @
          [\<lparr>req_url = url, req_method = ''POST'', req_body = sdp offer,
            req_headers = [(''Content-Type'', ''application/sdp'')]\<rparr>]"
    by (simp add: e3 r3)
  have r6: "ef_await (effects pg4 ! k) = AwaitText" by (simp add: f4)
  have r7: "fetches pg5 = fetches pg3" by (simp add: s5(1) e4)
  have r8: "pc_remoteDescription (peerConnections pg5 ! p) = None \<and>
      pc_applying (peerConnections pg5 ! p) = None"
    by (simp add: c5 c3 s1(4))
  have r9: "console_errors pg5 = console_errors pg0 @ [err]"
    by (simp add: s5(5) e4 e3 e2 s1(6))
  have r10: "connectionStatus (component pg5) = StatusError \<and>
      errorMessage (component pg5) = Some ''Cannot connect to Camera. Check Raspberry Pi.''"
    using f4 by (simp add: s5(7))
  have r11: "ef_await (effects pg5 ! k) = Settled" by (rule s5(6))
  have r12: "resume csd_throws k r pg5 = pg5" for r
    using k5 r11 by (rule resume_settled)
  show ?thesis
    unfolding Let_def k_def[symmetric] p_def[symmetric] pg1_def[symmetric] pg2_def[symmetric]
      pg3_def[symmetric] pg4_def[symmetric] pg5_def[symmetric]
    using r1 r2 r3 r4 r5 r6 r7 r8 r9 r10 r11 r12 unfolding err_def by blast
qed

theorem answer_is_never_applied_witness:
  "whep_url \<noteq> [] \<and> response_ok created \<and>
   (let pg1 = run_effect whep_url initial_page;
        pg2 = resume csd_throws 0 (ResolvedOffer sample_offer) pg1;
        pg3 = resume csd_throws 0 ResolvedVoid pg2;
        pg4 = resume csd_throws 0 (ResolvedResponse created) pg3;
        pg5 = resume csd_throws 0 (ResolvedText ''v=0 answer'') pg4
    in fetches pg3 =
         [\<lparr>req_url = whep_url, req_method = ''POST'', req_body = ''v=0 offer'',
           req_headers = [(''Content-Type'', ''application/sdp'')]\<rparr>] \<and>
       fetches pg5 = fetches pg3 \<and>
       pc_localDescription (peerConnections pg3 ! 0) = Some sample_offer \<and>
       pc_remoteDescription (peerConnections pg5 ! 0) = None \<and>
       connectionStatus (component pg5) = StatusError \<and>
       console_errors pg5 = [TypeError ''createSessionDescription is not a function''])"
proof -
  have h1: "whep_url \<noteq> []" using url_facts by simp
  have h2: "response_ok created" using response_facts by simp
  have z: "length (effects initial_page) = 0" "length (peerConnections initial_page) = 0"
    "fetches initial_page = []" "console_errors initial_page = []"
    "sdp sample_offer = ''v=0 offer''"
    by (simp_all add: initial_page_def sample_offer_def)
  note t = answer_is_never_applied [where url = whep_url and response = created
      and answerSdp = "''v=0 answer''" and ?pg0.0 = initial_page and offer = sample_offer,
      OF h1 h2]
  show ?thesis
    using h1 h2 t unfolding Let_def z append_Nil by blast
qed





subsection \<open>The connection held in pcRef\<close>

text \<open>
  Over every sequence of mounts, changes of \<open>streamUrl\<close>, unmounts, settled promises and
  track events, at most one connection constructed by \<open>startStream\<close> is open, the one in
  \<open>pcRef.current\<close>; the cleanup of an effect closes it, and it leaves
  \<open>streamRef.current\<close> as it was. It clears \<open>srcObject\<close> when \<open>streamUrl\<close> changes; at an
  unmount the video element is detached before the cleanup runs and keeps its
  \<open>srcObject\<close>.
\<close>

lemma negotiated_open_iff:
  "i \<in> set (negotiated_open pg) \<longleftrightarrow>
     i < length (peerConnections pg) \<and> pc_ontrack (peerConnections pg ! i) \<noteq> None \<and>
     \<not> pc_closed (peerConnections pg ! i)"
  by (auto simp: negotiated_open_def)

lemma tracked_iff:
  "tracked pg \<longleftrightarrow>
     (\<forall>i. i < length (peerConnections pg) \<and> pc_ontrack (peerConnections pg ! i) \<noteq> None \<and>
          \<not> pc_closed (peerConnections pg ! i)
          \<longrightarrow> pcRef (component pg) = Some i \<and> current_effect pg \<noteq> None)"
  by (auto simp: tracked_def list_all_iff Ball_def negotiated_open_iff)

lemma distinct_negotiated_open: "distinct (negotiated_open pg)"
  by (simp add: negotiated_open_def)

lemma tracked_at_most_one:
  assumes "tracked pg"
  shows "length (negotiated_open pg) \<le> 1"
proof (cases "negotiated_open pg")
  case Nil
  then show ?thesis by simp
next
  case (Cons i rest)
  have all: "\<forall>j \<in> set (negotiated_open pg). pcRef (component pg) = Some j"
    using assms by (simp add: tracked_def list_all_iff)
  have "rest = []"
  proof (cases rest)
    case Nil
    then show ?thesis .
  next
    case (Cons j js)
    from all \<open>negotiated_open pg = i # rest\<close> Cons have "i = j" by auto
    moreover from distinct_negotiated_open[of pg] \<open>negotiated_open pg = i # rest\<close> Cons have "i \<noteq> j"
      by auto
    ultimately show ?thesis by simp
  qed
  with Cons show ?thesis by simp
qed

text \<open>Closing the connection in \<open>pcRef\<close> leaves no negotiated connection open.\<close>

lemma close_tracked:
  assumes "tracked pg"
  shows "negotiated_open (case pcRef (component pg) of None \<Rightarrow> pg | Some p \<Rightarrow> pc_close p pg) = []"
proof -
  let ?pg = "case pcRef (component pg) of None \<Rightarrow> pg | Some p \<Rightarrow> pc_close p pg"
  have "i \<notin> set (negotiated_open ?pg)" for i
  proof
    assume a: "i \<in> set (negotiated_open ?pg)"
    show False
    proof (cases "pcRef (component pg)")
      case None
      with a assms show False by (auto simp: tracked_iff negotiated_open_iff)
    next
      case (Some p)
      with a have i: "i < length (peerConnections pg)"
        and o: "pc_ontrack (peerConnections (pc_close p pg) ! i) \<noteq> None"
        and c: "\<not> pc_closed (peerConnections (pc_close p pg) ! i)"
        by (auto simp: negotiated_open_iff pc_close_def)
      show False
      proof (cases "i = p")
        case True
        with c i show False by (simp add: pc_close_def update_pc_nth)
      next
        case False
        with o c have "pc_ontrack (peerConnections pg ! i) \<noteq> None" "\<not> pc_closed (peerConnections pg ! i)"
          by (simp_all add: pc_close_def update_pc_nth)
        with assms i have "pcRef (component pg) = Some i" by (auto simp: tracked_iff)
        with Some False show False by simp
      qed
    qed
  qed
  then show ?thesis by (cases "negotiated_open ?pg") auto
qed

lemma extends_refl: "extends pg pg"
  by (auto simp: extends_def)

lemma extends_tracked: "tracked pg \<Longrightarrow> extends pg pg' \<Longrightarrow> tracked pg'"
  unfolding tracked_iff extends_def
  by (metis not_le_imp_less)

lemma extends_update_effect: "extends pg pg' \<Longrightarrow> extends pg (update_effect k f pg')"
  by (simp add: extends_def)

lemma extends_update_pc:
  assumes "extends pg pg'"
    and "\<And>c. pc_ontrack (f c) = pc_ontrack c \<and> pc_closed (f c) = pc_closed c"
  shows "extends pg (update_pc p f pg')"
  using assms by (auto simp: extends_def update_pc_nth)

lemma extends_fetches: "extends pg pg' \<Longrightarrow> extends pg (pg'\<lparr>fetches := fs\<rparr>)"
  by (simp add: extends_def)

lemma extends_catch_block: "extends pg pg' \<Longrightarrow> extends pg (catch_block k err pg')"
  by (simp add: extends_def catch_block_def Let_def)

lemma extends_second_connection: "extends pg pg' \<Longrightarrow> extends pg (with_second_connection pg')"
  by (auto simp: extends_def with_second_connection_def new_RTCPeerConnection_def nth_append)

lemma extends_resume: "extends pg (resume csd k r pg)"
proof (cases "k < length (effects pg)")
  case False
  then show ?thesis by (simp add: resume_def extends_refl)
next
  case True
  show ?thesis
  proof (cases "ef_await (effects pg ! k)")
    case AwaitCreateOffer
    with True show ?thesis
      by (cases r) (simp_all add: resume_def extends_refl extends_update_effect extends_catch_block)
  next
    case AwaitSetLocalDescription
    with True show ?thesis
      by (cases r)
         (auto simp: resume_def Let_def split: option.splits
           intro!: extends_refl extends_update_effect extends_catch_block extends_fetches extends_update_pc)
  next
    case AwaitFetch
    with True show ?thesis
      by (cases r) (simp_all add: resume_def extends_refl extends_update_effect extends_catch_block)
  next
    case AwaitText
    show ?thesis
    proof (cases r)
      case (ResolvedText answerSdp)
      show ?thesis
        unfolding ResolvedText resume_text [OF True AwaitText]
        by (auto split: sum.splits option.splits
            intro!: extends_refl extends_update_effect extends_catch_block extends_second_connection
              extends_update_pc)
    qed (use True AwaitText in \<open>simp_all add: resume_def extends_refl extends_catch_block\<close>)
  next
    case AwaitSetRemoteDescription
    with True show ?thesis
      by (cases r)
         (auto simp: resume_def Let_def split: option.splits
           intro!: extends_refl extends_update_effect extends_catch_block extends_update_pc)
  next
    case Settled
    with True show ?thesis by (simp add: resume_def extends_refl)
  qed
qed

lemma extends_track_event: "extends pg (track_event p streams pg)"
  by (auto simp: extends_def track_event_def ontrack_handler_def Let_def
      split: option.splits list.splits)

lemma negotiated_open_cong:
  "peerConnections a = peerConnections b \<Longrightarrow> negotiated_open a = negotiated_open b"
  by (simp add: negotiated_open_def)

lemma tracked_cong:
  "peerConnections a = peerConnections b \<Longrightarrow> pcRef (component a) = pcRef (component b) \<Longrightarrow>
   current_effect a = current_effect b \<Longrightarrow> tracked a = tracked b"
  by (simp add: tracked_def negotiated_open_def)

lemma tracked_empty: "negotiated_open pg = [] \<Longrightarrow> tracked pg"
  by (simp add: tracked_def)

lemma tracked_unmounted: "tracked pg \<Longrightarrow> current_effect pg = None \<Longrightarrow> negotiated_open pg = []"
  by (cases "negotiated_open pg") (simp_all add: tracked_def)

text \<open>What the cleanup of an effect does to the page.\<close>

lemma cleanup_state:
  shows "peerConnections (cleanup k pg) =
          peerConnections (case pcRef (component pg) of None \<Rightarrow> pg | Some p \<Rightarrow> pc_close p pg)"
    and "pcRef (component (cleanup k pg)) = pcRef (component pg)"
    and "streamRef (component (cleanup k pg)) = streamRef (component pg)"
    and "current_effect (cleanup k pg) = current_effect pg"
    and "videoRef (component (cleanup k pg)) =
          map_option (\<lambda>v. v\<lparr>srcObject := None\<rparr>) (videoRef (component pg))"
    and "k < length (effects pg) \<Longrightarrow> \<not> ef_isMounted (effects (cleanup k pg) ! k)"
  by (simp_all add: cleanup_def Let_def update_effect_nth pc_close_def update_pc_def
      split: option.splits)

lemma cleanup_closes: "tracked pg \<Longrightarrow> negotiated_open (cleanup k pg) = []"
  using close_tracked [of pg] negotiated_open_cong [OF cleanup_state(1), of k pg] by simp

lemma run_effect_old_connections:
  "url \<noteq> [] \<Longrightarrow> i < length (peerConnections pg) \<Longrightarrow>
   peerConnections (run_effect url pg) ! i =
     peerConnections (case pcRef (component pg) of None \<Rightarrow> pg | Some p \<Rightarrow> pc_close p pg) ! i"
  by (simp add: run_effect_def startStream_def Let_def new_RTCPeerConnection_def
      update_pc_nth nth_append pc_close_def split: option.splits)

lemma run_effect_empty_url:
  "peerConnections (run_effect [] pg) = peerConnections pg"
  "component (run_effect [] pg) = component pg"
  "current_effect (run_effect [] pg) = Some (length (effects pg))"
  by (simp_all add: run_effect_def startStream_def Let_def)

lemma run_effect_tracked:
  assumes "tracked pg"
  shows "tracked (run_effect url pg)"
proof (cases "url = []")
  case True
  show ?thesis
    using assms unfolding True tracked_iff by (simp add: run_effect_empty_url)
next
  case False
  note s = run_effect_state [OF False, of pg]
  let ?closed = "case pcRef (component pg) of None \<Rightarrow> pg | Some p \<Rightarrow> pc_close p pg"
  have none: "negotiated_open ?closed = []" using assms by (rule close_tracked)
  have old: "pc_ontrack (peerConnections (run_effect url pg) ! i) = None \<or>
      pc_closed (peerConnections (run_effect url pg) ! i)"
    if "i < length (peerConnections pg)" for i
  proof -
    have "i \<notin> set (negotiated_open ?closed)" using none by simp
    then show ?thesis
      using that run_effect_old_connections [OF False that]
      by (auto simp: negotiated_open_iff)
  qed
  show ?thesis
    unfolding tracked_iff
  proof (intro allI impI)
    fix i
    assume a: "i < length (peerConnections (run_effect url pg)) \<and>
      pc_ontrack (peerConnections (run_effect url pg) ! i) \<noteq> None \<and>
      \<not> pc_closed (peerConnections (run_effect url pg) ! i)"
    then have "i = length (peerConnections pg)"
      using old [of i] s(3) by (cases "i < length (peerConnections pg)") auto
    then show "pcRef (component (run_effect url pg)) = Some i \<and>
        current_effect (run_effect url pg) \<noteq> None"
      by (simp add: s(7) s(8))
  qed
qed

text \<open>Every event keeps the invariant.\<close>

lemma page_step_tracked:
  assumes "tracked pg"
  shows "tracked (page_step csd pg ev)"
proof (cases ev)
  case (Mount v url)
  show ?thesis
  proof (cases "current_effect pg")
    case None
    have "negotiated_open (pg\<lparr>component := initial_component v\<rparr>) = []"
      using tracked_unmounted [OF assms None] negotiated_open_cong [of "pg\<lparr>component := initial_component v\<rparr>" pg]
      by simp
    then have "tracked (run_effect url (pg\<lparr>component := initial_component v\<rparr>))"
      by (rule run_effect_tracked [OF tracked_empty])
    then show ?thesis by (simp add: Mount None)
  next
    case (Some k)
    then show ?thesis using assms by (simp add: Mount)
  qed
next
  case (ChangeUrl url)
  show ?thesis
  proof (cases "current_effect pg")
    case None
    then show ?thesis using assms by (simp add: ChangeUrl)
  next
    case (Some k)
    have "tracked (run_effect url (cleanup k pg))"
      by (rule run_effect_tracked [OF tracked_empty [OF cleanup_closes [OF assms]]])
    then show ?thesis using assms by (simp add: ChangeUrl Some)
  qed
next
  case Unmount
  show ?thesis
  proof (cases "current_effect pg")
    case None
    then show ?thesis using assms by (simp add: Unmount)
  next
    case (Some k)
    define pgd where "pgd = pg\<lparr>component := (component pg)\<lparr>videoRef := None\<rparr>,
      detached := detached pg @ (case videoRef (component pg) of None \<Rightarrow> [] | Some v \<Rightarrow> [v])\<rparr>"
    have "tracked pgd"
      using assms tracked_cong [of pgd pg] by (simp add: pgd_def)
    then have "negotiated_open ((cleanup k pgd)\<lparr>current_effect := None\<rparr>) = []"
      using cleanup_closes [of pgd k]
        negotiated_open_cong [of "(cleanup k pgd)\<lparr>current_effect := None\<rparr>" "cleanup k pgd"]
      by simp
    then show ?thesis by (simp add: Unmount Some tracked_empty pgd_def)
  qed
next
  case (Settle k r)
  show ?thesis
    using extends_tracked [OF assms extends_resume] by (simp add: Settle)
next
  case (TrackEvent p streams)
  show ?thesis
    using extends_tracked [OF assms extends_track_event] by (simp add: TrackEvent)
qed

lemma page_run_tracked: "tracked pg \<Longrightarrow> tracked (page_run csd pg evs)"
proof (induction evs arbitrary: pg)
  case Nil
  then show ?case by (simp add: page_run_def)
next
  case (Cons ev evs)
  have "page_run csd pg (ev # evs) = page_run csd (page_step csd pg ev) evs"
    by (simp add: page_run_def)
  then show ?case using Cons.IH [OF page_step_tracked [OF Cons.prems]] by simp
qed

lemma negotiated_connections_at_most_one:
  "length (negotiated_open (page_run csd initial_page evs)) \<le> 1"
proof -
  have "tracked initial_page"
    by (simp add: tracked_def negotiated_open_def initial_page_def)
  then show ?thesis by (rule tracked_at_most_one [OF page_run_tracked])
qed

lemma teardown_closes_negotiated:
  "negotiated_open (page_step csd (page_run csd initial_page evs) Unmount) = [] \<and>
   negotiated_open (cleanup k (page_run csd initial_page evs)) = []"
proof -
  let ?pg = "page_run csd initial_page evs"
  have "tracked initial_page"
    by (simp add: tracked_def negotiated_open_def initial_page_def)
  then have t: "tracked ?pg" by (rule page_run_tracked)
  have 1: "negotiated_open (cleanup k ?pg) = []" using t by (rule cleanup_closes)
  have c: "current_effect (page_step csd ?pg Unmount) = None"
    by (simp split: option.splits)
  have 2: "negotiated_open (page_step csd ?pg Unmount) = []"
    using page_step_tracked [OF t] c by (rule tracked_unmounted)
  show ?thesis using 1 2 by blast
qed

text \<open>
  The media source of the video element at a teardown: a change of \<open>streamUrl\<close> clears
  it; an unmount leaves it, because the element is no longer in \<open>videoRef\<close> when the
  cleanup runs.
\<close>

lemma url_change_clears_srcObject:
  assumes "current_effect pg = Some k" and "url \<noteq> ef_streamUrl (effects pg ! k)"
  shows "videoRef (component (page_step csd pg (ChangeUrl url))) =
           map_option (\<lambda>v. v\<lparr>srcObject := None\<rparr>) (videoRef (component pg))"
proof -
  have r: "videoRef (component (run_effect u p)) = videoRef (component p)" for u p
    using run_effect_state(7) [of u p] run_effect_empty_url(2) [of p] by (cases "u = []") simp_all
  show ?thesis using assms by (simp add: r cleanup_state(5))
qed

lemma unmount_leaves_srcObject:
  assumes "current_effect pg = Some k" and "videoRef (component pg) = Some v"
  shows "videoRef (component (page_step csd pg Unmount)) = None \<and>
         detached (page_step csd pg Unmount) = detached pg @ [v]"
  using assms
  by (simp add: cleanup_def Let_def pc_close_def split: option.splits)

lemma getStream_survives_teardown:
  "LiveStream_getStream (component (page_step csd pg Unmount)) = LiveStream_getStream (component pg) \<and>
   LiveStream_getStream (component (page_step csd pg (ChangeUrl url))) =
     LiveStream_getStream (component pg)"
proof -
  have r: "streamRef (component (run_effect u p)) = streamRef (component p)" for u p
    using run_effect_state(7) [of u p] run_effect_empty_url(2) [of p] by (cases "u = []") simp_all
  show ?thesis
    by (simp add: LiveStream_getStream_def r cleanup_state(3) split: option.splits)
qed

text \<open>
  C1, evaluated on the code: the component is mounted once and the gateway answers the
  POST with status 201. When the body has been read, the source builds the answer with
  \<open>new RTCPeerConnection().createSessionDescription(...)\<close>: a second peer connection is
  constructed while the negotiated one is open, and nothing closes it, whether
  \<open>createSessionDescription\<close> returns or throws. Two connections are open at that
  instant; one is still open after the unmount; and after a change of \<open>streamUrl\<close> the
  new negotiated connection and the leftover one are open together.
\<close>

theorem second_connection_stays_open:
  "open_connections (page_run csd initial_page answered) = 2 \<and>
   open_connections (page_run csd initial_page (answered @ [Unmount])) = 1 \<and>
   open_connections (page_run csd initial_page (answered @ [ChangeUrl other_url])) = 2"
proof (cases "csd \<lparr>sd_type = SdpAnswer, sdp = ''v=0 answer''\<rparr>")
  case (Inl err)
  show ?thesis
    unfolding page_run_append answered_run_throws [where csd = csd, OF Inl]
    by (simp add: negotiation_defs url_facts posted_page_def answer_failed_page_def
        unconfigured_connection_def)
next
  case (Inr d)
  show ?thesis
    unfolding page_run_append answered_run_returns [where csd = csd, OF Inr]
    by (simp add: negotiation_defs url_facts posted_page_def answer_built_page_def
        unconfigured_connection_def)
qed

subsection \<open>The stream held in streamRef\<close>

text \<open>
  \<open>streamRef.current\<close> is assigned in the \<open>ontrack\<close> handler and nowhere else, and a
  connection fires \<open>track\<close> only while it applies a remote description. While
  \<open>createSessionDescription\<close> throws, no run of the component gets there: \<open>unanswered\<close>
  holds of the initial page and every event keeps it.
\<close>

lemma unanswered_iff:
  "unanswered pg \<longleftrightarrow>
     streamRef (component pg) = None \<and> connectionStatus (component pg) \<noteq> StatusConnected \<and>
     (\<forall>i < length (peerConnections pg).
        pc_applying (peerConnections pg ! i) = None \<and>
        pc_remoteDescription (peerConnections pg ! i) = None) \<and>
     (\<forall>j < length (effects pg). ef_await (effects pg ! j) \<noteq> AwaitSetRemoteDescription)"
  by (auto simp: unanswered_def list_all_length)

lemma unanswered_cong:
  "component a = component b \<Longrightarrow> peerConnections a = peerConnections b \<Longrightarrow>
   effects a = effects b \<Longrightarrow> unanswered a = unanswered b"
  by (simp add: unanswered_def)

lemma unanswered_update_effect:
  assumes "unanswered pg" and "\<And>e. ef_await (f e) \<noteq> AwaitSetRemoteDescription"
  shows "unanswered (update_effect k f pg)"
  using assms by (auto simp: unanswered_iff update_effect_nth)

lemma unanswered_update_pc:
  assumes "unanswered pg"
    and "\<And>c. pc_applying (f c) = pc_applying c \<and> pc_remoteDescription (f c) = pc_remoteDescription c"
  shows "unanswered (update_pc p f pg)"
  using assms by (auto simp: unanswered_iff update_pc_nth)

lemma unanswered_fetches: "unanswered pg \<Longrightarrow> unanswered (pg\<lparr>fetches := fs\<rparr>)"
  by (simp add: unanswered_def)

lemma unanswered_catch_block: "unanswered pg \<Longrightarrow> unanswered (catch_block k err pg)"
  by (auto simp: unanswered_iff catch_block_def Let_def update_effect_nth)

lemma unanswered_second_connection: "unanswered pg \<Longrightarrow> unanswered (with_second_connection pg)"
  by (auto simp: unanswered_iff with_second_connection_def new_RTCPeerConnection_def nth_append)

lemma unanswered_close_prior:
  "unanswered pg \<Longrightarrow> unanswered (case r of None \<Rightarrow> pg | Some p \<Rightarrow> pc_close p pg)"
  by (cases r) (simp_all add: pc_close_def unanswered_update_pc)

lemma unanswered_resume:
  assumes "unanswered pg" and "\<And>d. \<exists>err. csd d = Inl err"
  shows "unanswered (resume csd k r pg)"
proof (cases "k < length (effects pg)")
  case False
  then show ?thesis using assms(1) by (simp add: resume_def)
next
  case True
  have n: "ef_await (effects pg ! k) \<noteq> AwaitSetRemoteDescription"
    using assms(1) True by (simp add: unanswered_iff)
  show ?thesis
  proof (cases "ef_await (effects pg ! k)")
    case AwaitCreateOffer
    with True assms(1) show ?thesis
      by (cases r) (simp_all add: resume_def unanswered_update_effect unanswered_catch_block)
  next
    case AwaitSetLocalDescription
    with True assms(1) show ?thesis
      by (cases r)
         (auto simp: resume_def Let_def split: option.splits
           intro!: unanswered_update_effect unanswered_catch_block unanswered_fetches
             unanswered_update_pc)
  next
    case AwaitFetch
    with True assms(1) show ?thesis
      by (cases r) (simp_all add: resume_def unanswered_update_effect unanswered_catch_block)
  next
    case AwaitText
    show ?thesis
    proof (cases r)
      case (ResolvedText answerSdp)
      obtain err where "csd \<lparr>sd_type = SdpAnswer, sdp = answerSdp\<rparr> = Inl err"
        using assms(2) by blast
      then show ?thesis
        unfolding ResolvedText resume_text [OF True AwaitText]
        using assms(1) by (simp add: unanswered_catch_block unanswered_second_connection)
    qed (use True AwaitText assms(1) in \<open>simp_all add: resume_def unanswered_catch_block\<close>)
  next
    case AwaitSetRemoteDescription
    with n show ?thesis by simp
  next
    case Settled
    with True assms(1) show ?thesis by (simp add: resume_def)
  qed
qed

lemma unanswered_track_event: "unanswered pg \<Longrightarrow> track_event p streams pg = pg"
  by (auto simp: track_event_def unanswered_iff)

lemma unanswered_cleanup: "unanswered pg \<Longrightarrow> unanswered (cleanup k pg)"
proof -
  assume a: "unanswered pg"
  let ?pg1 = "update_effect k (\<lambda>e. e\<lparr>ef_isMounted := False\<rparr>) pg"
  let ?pg2 = "case pcRef (component ?pg1) of None \<Rightarrow> ?pg1 | Some p \<Rightarrow> pc_close p ?pg1"
  have 1: "unanswered ?pg1"
    using a by (auto simp: unanswered_iff update_effect_nth)
  have 2: "unanswered ?pg2" using 1 by (rule unanswered_close_prior)
  have 3: "unanswered (?pg2\<lparr>component := (component ?pg2)\<lparr>videoRef := w\<rparr>\<rparr>)" for w
    using 2 by (simp add: unanswered_def)
  show ?thesis
    using 2 3 by (simp add: cleanup_def Let_def split: option.splits)
qed

lemma unanswered_run_effect:
  assumes "unanswered pg"
  shows "unanswered (run_effect url pg)"
proof (cases "url = []")
  case True
  show ?thesis
    using assms unfolding True
    by (auto simp: unanswered_iff run_effect_def startStream_def Let_def update_effect_nth
        nth_append)
next
  case False
  note s = run_effect_state [OF False, of pg]
  let ?closed = "case pcRef (component pg) of None \<Rightarrow> pg | Some p \<Rightarrow> pc_close p pg"
  have c: "unanswered ?closed" using assms by (rule unanswered_close_prior)
  have old: "peerConnections (run_effect url pg) ! i = peerConnections ?closed ! i"
    if "i < length (peerConnections pg)" for i
    using run_effect_old_connections [OF False that] .
  have eff: "ef_await (effects (run_effect url pg) ! j) \<noteq> AwaitSetRemoteDescription"
    if "j < Suc (length (effects pg))" for j
  proof (cases "j = length (effects pg)")
    case True
    then show ?thesis by (simp add: s(2))
  next
    case False
    with that have j: "j < length (effects pg)" by simp
    have "effects (run_effect url pg) ! j = effects pg ! j"
      using j \<open>url \<noteq> []\<close>
      by (simp add: run_effect_def startStream_def Let_def new_RTCPeerConnection_def
          update_effect_nth nth_append)
    then show ?thesis using assms j by (simp add: unanswered_iff)
  qed
  have pcs: "pc_applying (peerConnections (run_effect url pg) ! i) = None \<and>
      pc_remoteDescription (peerConnections (run_effect url pg) ! i) = None"
    if "i < Suc (length (peerConnections pg))" for i
  proof (cases "i = length (peerConnections pg)")
    case True
    then show ?thesis by (simp add: s(4))
  next
    case False
    with that have i: "i < length (peerConnections pg)" by simp
    then show ?thesis using c old [OF i] by (simp add: unanswered_iff)
  qed
  show ?thesis
    unfolding unanswered_iff
    using assms eff pcs by (simp add: s(1) s(3) s(7) unanswered_iff)
qed

text \<open>Every event keeps the invariant.\<close>

lemma page_step_unanswered:
  assumes "unanswered pg" and "\<And>d. \<exists>err. csd d = Inl err"
  shows "unanswered (page_step csd pg ev)"
proof (cases ev)
  case (Mount v url)
  have "unanswered (pg\<lparr>component := initial_component v\<rparr>)"
    using assms(1) by (simp add: unanswered_def initial_component_def)
  then have "unanswered (run_effect url (pg\<lparr>component := initial_component v\<rparr>))"
    by (rule unanswered_run_effect)
  then show ?thesis using assms(1) by (simp add: Mount split: option.splits)
next
  case (ChangeUrl url)
  have "unanswered (run_effect url (cleanup k pg))" for k
    by (rule unanswered_run_effect [OF unanswered_cleanup [OF assms(1)]])
  then show ?thesis using assms(1) by (simp add: ChangeUrl split: option.splits)
next
  case Unmount
  define pgd where "pgd = pg\<lparr>component := (component pg)\<lparr>videoRef := None\<rparr>,
    detached := detached pg @ (case videoRef (component pg) of None \<Rightarrow> [] | Some v \<Rightarrow> [v])\<rparr>"
  have "unanswered pgd" using assms(1) by (simp add: pgd_def unanswered_def)
  then have "unanswered (cleanup k pgd)" for k by (rule unanswered_cleanup)
  then have "unanswered ((cleanup k pgd)\<lparr>current_effect := None\<rparr>)" for k
    using unanswered_cong [of "(cleanup k pgd)\<lparr>current_effect := None\<rparr>" "cleanup k pgd"] by simp
  then show ?thesis using assms(1) by (simp add: Unmount pgd_def split: option.splits)
next
  case (Settle k r)
  show ?thesis using unanswered_resume [OF assms] by (simp add: Settle)
next
  case (TrackEvent p streams)
  show ?thesis using assms(1) by (simp add: TrackEvent unanswered_track_event)
qed

lemma page_run_unanswered:
  assumes "\<And>d. \<exists>err. csd d = Inl err"
  shows "unanswered pg \<Longrightarrow> unanswered (page_run csd pg evs)"
proof (induction evs arbitrary: pg)
  case Nil
  then show ?case by (simp add: page_run_def)
next
  case (Cons ev evs)
  have "page_run csd pg (ev # evs) = page_run csd (page_step csd pg ev) evs"
    by (simp add: page_run_def)
  then show ?case using Cons.IH [OF page_step_unanswered [OF Cons.prems assms]] by simp
qed

lemma unanswered_in_every_run: "unanswered (page_run csd_throws initial_page evs)"
proof -
  have "unanswered initial_page" by (simp add: unanswered_def initial_page_def)
  moreover have "\<exists>err. csd_throws d = Inl err" for d by (simp add: csd_throws_def)
  ultimately show ?thesis using page_run_unanswered [of csd_throws] by blast
qed

text \<open>
  In no run of the component does a connection get a remote description, and no track
  event changes the page.
\<close>

lemma remote_description_never_set:
  "list_all (\<lambda>c. pc_remoteDescription c = None) (peerConnections (page_run csd_throws initial_page evs)) \<and>
   page_step csd_throws (page_run csd_throws initial_page evs) (TrackEvent p streams) =
     page_run csd_throws initial_page evs"
  using unanswered_in_every_run [of evs]
  by (simp add: unanswered_track_event unanswered_iff list_all_length)


end
